theory Spec2Isabelle
  imports Complex_Main
begin

section \<open>Values of the 3D engine\<close>

text \<open>
  The component \<open>src/lib/ModelViewer.svelte\<close> drives an external 3D engine. JavaScript
  numbers are modelled as real numbers: every equality below is exact where the running
  program computes in double precision.
\<close>

datatype Vector3 = Vector3 (vx: real) (vy: real) (vz: real)

datatype Color3 = Color3 real real real

datatype Color4 = Color4 real real real real

definition Vector3_Zero :: Vector3 where
  "Vector3_Zero = Vector3 0 0 0"

definition Vector3_subtract :: "Vector3 \<Rightarrow> Vector3 \<Rightarrow> Vector3" where
  \<comment> \<open>\<open>a.subtract(b)\<close>\<close>
  "Vector3_subtract a b = Vector3 (vx a - vx b) (vy a - vy b) (vz a - vz b)"

definition Vector3_scale :: "Vector3 \<Rightarrow> real \<Rightarrow> Vector3" where
  \<comment> \<open>\<open>a.scale(k)\<close>\<close>
  "Vector3_scale a k = Vector3 (vx a * k) (vy a * k) (vz a * k)"

definition Vector3_Center :: "Vector3 \<Rightarrow> Vector3 \<Rightarrow> Vector3" where
  \<comment> \<open>\<open>Vector3.Center(a, b)\<close>: the midpoint\<close>
  "Vector3_Center a b = Vector3 ((vx a + vx b) / 2) ((vy a + vy b) / 2) ((vz a + vz b) / 2)"

definition Math_PI :: real where
  \<comment> \<open>\<open>Math.PI\<close>, by the decimal numeral that JavaScript prints for it\<close>
  "Math_PI = 3.141592653589793"

definition Math_max3 :: "real \<Rightarrow> real \<Rightarrow> real \<Rightarrow> real" where
  \<comment> \<open>\<open>Math.max(a, b, c)\<close>\<close>
  "Math_max3 a b c = max a (max b c)"

record Material =
  materialName :: string
  diffuseColor :: Color3
  materialAlpha :: real

datatype NodeRef = LoadedNode string | PivotNode

text \<open>
  A mesh as the loader hands it over. \<open>vertices\<close> are the positions of its vertices in
  world space at load time; once the mesh is re-parented under the (then untransformed)
  pivot with its world transform preserved, they are its coordinates in the pivot's frame.
\<close>

record AbstractMesh =
  vertices :: "Vector3 list"
  material :: "Material option"
  enabled :: bool
  isVisible :: bool
  parent :: "NodeRef option"

definition getTotalVertices :: "AbstractMesh \<Rightarrow> nat" where
  "getTotalVertices m = length (vertices m)"

definition hasVertices :: "AbstractMesh \<Rightarrow> bool" where
  \<comment> \<open>the predicate \<open>(m) => m.getTotalVertices() > 0\<close> of lines 79, 97 and 113\<close>
  "hasVertices m = (getTotalVertices m > 0)"

record TransformNode =
  nodeName :: string
  scaling :: Vector3
  position :: Vector3

record ArcRotateCamera =
  cameraName :: string
  alpha :: real
  beta :: real
  radius :: real
  target :: Vector3
  controlAttached :: bool
  lowerRadiusLimit :: "real option"
  upperRadiusLimit :: "real option"
  wheelDeltaPercentage :: real
  panningSensibility :: real
  useFramingBehavior :: bool
  minZ :: real
  maxZ :: real

datatype LightKind = Hemispheric | Directional

record Light =
  lightName :: string
  lightKind :: LightKind
  direction :: Vector3
  intensity :: "real option"

record Scene =
  clearColor :: "Color4 option"
  activeCamera :: "string option"
  lights :: "Light list"
  meshes :: "nat list"
  modelPivot :: "TransformNode option"
  sceneDisposed :: bool

record Engine =
  antialias :: bool
  preserveDrawingBuffer :: bool
  stencil :: bool
  renderLoopRunning :: bool
  engineDisposed :: bool

record AssetContainer =
  containerMeshes :: "AbstractMesh list"

section \<open>Exceptions, the console, and the session's variables\<close>

datatype Exn = Exn string

datatype LogEntry =
  Warn string
| Error string Exn

text \<open>
  The component's module-level variables (source lines 27 to 31), the console, and the
  window's resize listeners. A handle that is \<open>null\<close> in the source is \<open>None\<close>.
\<close>

record Session =
  canvasElement :: "unit option"
  engine :: "Engine option"
  scene :: "Scene option"
  camera :: "ArcRotateCamera option"
  handleResize :: "unit option"
  meshStore :: "AbstractMesh list"
  console :: "LogEntry list"
  resizeListeners :: nat

text \<open>
  Mesh objects are shared between the asset container, the scene and the local
  \<open>renderMeshes\<close> array, and they are mutated in place. They live in \<open>meshStore\<close>; a
  reference to a mesh is its index there, which is also its index in
  \<open>assetContainer.meshes\<close>: the store holds the meshes of the one container that the
  session loads, from the moment the load resolves.
\<close>

section \<open>The environment: the engine library and the loader\<close>

datatype LoadOutcome =
  Rejected Exn
| Resolved "AssetContainer option"

record ZoomOutcome =
  zoomRadius :: real
  zoomTarget :: Vector3
  zoomMaxZ :: real

text \<open>
  What the component does not decide itself is a parameter:
  \<^item> \<open>throwsAt line\<close>: the exception, if any, that the engine or host call on that source
    line raises;
  \<^item> \<open>LoadAssetContainerAsync url\<close>: how the awaited load of line 73 settles;
  \<^item> \<open>cameraDefaults\<close>: the fields of a camera fresh from the engine's constructor that
    the constructor's arguments do not fix (among them the clip planes);
  \<^item> \<open>zoomOnEngine\<close>: the distance, target and far plane that the engine's
    \<open>camera.zoomOn(meshes, doNotUpdateMaxZ)\<close> leaves in the camera, given the session
    it is called in. The call is taken to write no other field of the camera.
\<close>

record Env =
  throwsAt :: "nat \<Rightarrow> Exn option"
  LoadAssetContainerAsync :: "string \<Rightarrow> LoadOutcome"
  cameraDefaults :: ArcRotateCamera
  zoomOnEngine :: "Session \<Rightarrow> nat list \<Rightarrow> bool \<Rightarrow> ZoomOutcome"

section \<open>Statements as actions on the session\<close>

type_synonym action = "Session \<Rightarrow> Exn option \<times> Session"

definition ok :: action where
  "ok s = (None, s)"

definition throw :: "Exn \<Rightarrow> action" where
  "throw e s = (Some e, s)"

definition assign :: "(Session \<Rightarrow> Session) \<Rightarrow> action" where
  "assign f s = (None, f s)"

definition andThen :: "action \<Rightarrow> action \<Rightarrow> action" where
  "andThen a b s = (case a s of (None, s') \<Rightarrow> b s' | (Some e, s') \<Rightarrow> (Some e, s'))"

fun block :: "action list \<Rightarrow> action" where
  "block [] = ok"
| "block (a # as) = andThen a (block as)"

fun forEach :: "(nat \<Rightarrow> action) \<Rightarrow> nat list \<Rightarrow> action" where
  "forEach f [] = ok"
| "forEach f (i # is) = andThen (f i) (forEach f is)"

definition tryCatch :: "action \<Rightarrow> (Exn \<Rightarrow> action) \<Rightarrow> action" where
  "tryCatch a h s = (case a s of (None, s') \<Rightarrow> (None, s') | (Some e, s') \<Rightarrow> h e s')"

definition engineCall :: "Env \<Rightarrow> nat \<Rightarrow> action \<Rightarrow> action" where
  \<comment> \<open>a call into the engine on the given source line: it throws, or it has its effect\<close>
  "engineCall env line a s =
     (case throwsAt env line of Some e \<Rightarrow> (Some e, s) | None \<Rightarrow> a s)"

definition TypeError :: Exn where
  "TypeError = Exn ''TypeError''"

text \<open>A member access through a handle throws a TypeError where the handle is null.\<close>

definition withEngine :: "(Engine \<Rightarrow> Engine) \<Rightarrow> action" where
  "withEngine f s =
     (case engine s of None \<Rightarrow> (Some TypeError, s)
      | Some e \<Rightarrow> (None, s\<lparr>engine := Some (f e)\<rparr>))"

definition withScene :: "(Scene \<Rightarrow> Scene) \<Rightarrow> action" where
  "withScene f s =
     (case scene s of None \<Rightarrow> (Some TypeError, s)
      | Some sc \<Rightarrow> (None, s\<lparr>scene := Some (f sc)\<rparr>))"

definition withCamera :: "(ArcRotateCamera \<Rightarrow> ArcRotateCamera) \<Rightarrow> action" where
  "withCamera f s =
     (case camera s of None \<Rightarrow> (Some TypeError, s)
      | Some c \<Rightarrow> (None, s\<lparr>camera := Some (f c)\<rparr>))"

definition withPivot :: "(TransformNode \<Rightarrow> TransformNode) \<Rightarrow> action" where
  "withPivot f s =
     (case scene s of None \<Rightarrow> (Some TypeError, s)
      | Some sc \<Rightarrow>
          (case modelPivot sc of None \<Rightarrow> (Some TypeError, s)
           | Some p \<Rightarrow> (None, s\<lparr>scene := Some (sc\<lparr>modelPivot := Some (f p)\<rparr>)\<rparr>)))"

definition withMesh :: "nat \<Rightarrow> (AbstractMesh \<Rightarrow> AbstractMesh) \<Rightarrow> action" where
  "withMesh i f s = (None, s\<lparr>meshStore := (meshStore s)[i := f (meshStore s ! i)]\<rparr>)"

definition console_warn :: "string \<Rightarrow> action" where
  "console_warn msg s = (None, s\<lparr>console := console s @ [Warn msg]\<rparr>)"

definition console_error :: "string \<Rightarrow> Exn \<Rightarrow> action" where
  "console_error msg e s = (None, s\<lparr>console := console s @ [Error msg e]\<rparr>)"

section \<open>Engine operations the component calls\<close>

definition new_Engine :: "bool \<Rightarrow> bool \<Rightarrow> bool \<Rightarrow> Engine" where
  \<comment> \<open>\<open>new Engine(canvas, antialias, {preserveDrawingBuffer, stencil})\<close>\<close>
  "new_Engine aa pdb st =
     \<lparr>antialias = aa, preserveDrawingBuffer = pdb, stencil = st,
      renderLoopRunning = False, engineDisposed = False\<rparr>"

definition new_Scene :: Scene where
  \<comment> \<open>\<open>new Scene(engine)\<close>: an empty scene; \<open>clearColor = None\<close> stands for the engine's own\<close>
  "new_Scene =
     \<lparr>clearColor = None, activeCamera = None, lights = [], meshes = [],
      modelPivot = None, sceneDisposed = False\<rparr>"

definition new_ArcRotateCamera ::
  "Env \<Rightarrow> string \<Rightarrow> real \<Rightarrow> real \<Rightarrow> real \<Rightarrow> Vector3 \<Rightarrow> ArcRotateCamera" where
  \<comment> \<open>\<open>new ArcRotateCamera(name, alpha, beta, radius, target, scene)\<close>\<close>
  "new_ArcRotateCamera env nm a b r t =
     (cameraDefaults env)\<lparr>cameraName := nm, alpha := a, beta := b, radius := r, target := t,
                          controlAttached := False\<rparr>"

definition new_Light :: "LightKind \<Rightarrow> string \<Rightarrow> Vector3 \<Rightarrow> Light" where
  \<comment> \<open>\<open>new HemisphericLight(name, direction, scene)\<close>, \<open>new DirectionalLight(...)\<close>;
      \<open>intensity = None\<close> stands for the engine's own\<close>
  "new_Light k nm d = \<lparr>lightName = nm, lightKind = k, direction = d, intensity = None\<rparr>"

definition setIntensity :: "string \<Rightarrow> real \<Rightarrow> Scene \<Rightarrow> Scene" where
  \<comment> \<open>\<open>light.intensity = v\<close> for the light created under that name\<close>
  "setIntensity nm v sc =
     sc\<lparr>lights := map (\<lambda>l. if lightName l = nm then l\<lparr>intensity := Some v\<rparr> else l) (lights sc)\<rparr>"

definition new_StandardMaterial :: "string \<Rightarrow> Material" where
  \<comment> \<open>Modelled from the spec: the engine's \<open>StandardMaterial\<close> constructor is not in src/.
      By section 4.1 step 7 the material the component assigns is opaque, and the
      component itself sets nothing but the diffuse colour: the constructor yields alpha 1.\<close>
  "new_StandardMaterial nm =
     \<lparr>materialName = nm, diffuseColor = Color3 1 1 1, materialAlpha = 1\<rparr>"

definition new_TransformNode :: "string \<Rightarrow> TransformNode" where
  \<comment> \<open>Modelled from the spec: the engine's \<open>TransformNode\<close> constructor is not in src/.
      By section 4.2 step a, re-parenting under the new pivot moves no mesh: the pivot
      starts with the identity transform.\<close>
  "new_TransformNode nm =
     \<lparr>nodeName = nm, scaling = Vector3 1 1 1, position = Vector3_Zero\<rparr>"

definition setParent :: "NodeRef \<Rightarrow> AbstractMesh \<Rightarrow> AbstractMesh" where
  \<comment> \<open>\<open>m.setParent(node, true, true)\<close>: the world transform is preserved\<close>
  "setParent n m = m\<lparr>parent := Some n\<rparr>"

definition setTarget :: "Vector3 \<Rightarrow> ArcRotateCamera \<Rightarrow> ArcRotateCamera" where
  "setTarget t c = c\<lparr>target := t\<rparr>"

definition attachControl :: "ArcRotateCamera \<Rightarrow> ArcRotateCamera" where
  "attachControl c = c\<lparr>controlAttached := True\<rparr>"

definition detachControl :: "ArcRotateCamera \<Rightarrow> ArcRotateCamera" where
  "detachControl c = c\<lparr>controlAttached := False\<rparr>"

definition toWorld :: "TransformNode \<Rightarrow> Vector3 \<Rightarrow> Vector3" where
  \<comment> \<open>a point of the pivot's frame, in world space\<close>
  "toWorld p v =
     Vector3 (vx (scaling p) * vx v + vx (position p))
             (vy (scaling p) * vy v + vy (position p))
             (vz (scaling p) * vz v + vz (position p))"

definition minimize :: "Vector3 \<Rightarrow> Vector3 \<Rightarrow> Vector3" where
  "minimize a b = Vector3 (min (vx a) (vx b)) (min (vy a) (vy b)) (min (vz a) (vz b))"

definition maximize :: "Vector3 \<Rightarrow> Vector3 \<Rightarrow> Vector3" where
  "maximize a b = Vector3 (max (vx a) (vx b)) (max (vy a) (vy b)) (max (vz a) (vz b))"

definition hierarchyPoints ::
  "TransformNode \<Rightarrow> AbstractMesh list \<Rightarrow> (AbstractMesh \<Rightarrow> bool) \<Rightarrow> Vector3 list" where
  "hierarchyPoints p ms pred =
     concat (map (\<lambda>m. map (toWorld p) (vertices m))
                 (filter (\<lambda>m. parent m = Some PivotNode \<and> pred m) ms))"

definition getHierarchyBoundingVectors ::
  "TransformNode \<Rightarrow> AbstractMesh list \<Rightarrow> (AbstractMesh \<Rightarrow> bool) \<Rightarrow> Vector3 \<times> Vector3" where
  \<comment> \<open>Modelled from the spec: the engine's \<open>getHierarchyBoundingVectors\<close> is not in src/.
      By section 4.2 step b it is the axis-aligned bounding box, in world space, of the
      pivot's hierarchy restricted to the meshes the predicate accepts. A hierarchy
      without such a mesh is bounded by the pivot's own position.\<close>
  "getHierarchyBoundingVectors p ms pred =
     (case hierarchyPoints p ms pred of
        [] \<Rightarrow> (position p, position p)
      | v # vs \<Rightarrow> (fold minimize vs v, fold maximize vs v))"

definition nullable :: "real option \<Rightarrow> real" where
  \<comment> \<open>a nullable number in arithmetic: \<open>null\<close> counts as 0\<close>
  "nullable v = (case v of None \<Rightarrow> 0 | Some r \<Rightarrow> r)"

definition zoomOn :: "Env \<Rightarrow> nat list \<Rightarrow> bool \<Rightarrow> action" where
  \<comment> \<open>\<open>camera.zoomOn(meshes, doNotUpdateMaxZ)\<close>: the engine re-frames the camera\<close>
  "zoomOn env ms doNotUpdateMaxZ s =
     (let z = zoomOnEngine env s ms doNotUpdateMaxZ
      in withCamera (\<lambda>c. c\<lparr>radius := zoomRadius z, target := zoomTarget z,
                            maxZ := zoomMaxZ z\<rparr>) s)"

definition digit :: "nat \<Rightarrow> char" where
  "digit n = ''0123456789'' ! n"

fun digits :: "nat \<Rightarrow> string" where
  \<comment> \<open>a number as the template literal of line 85 prints it\<close>
  "digits n = (if n < 10 then [digit n] else digits (n div 10) @ [digit (n mod 10)])"

declare digits.simps [simp del]

section \<open>Activation: \<open>onMount\<close>\<close>

definition createEngine :: "Env \<Rightarrow> action" where
  \<comment> \<open>lines 38 to 41\<close>
  "createEngine env =
     engineCall env 38 (assign (\<lambda>s. s\<lparr>engine := Some (new_Engine True True True)\<rparr>))"

definition createScene :: "Env \<Rightarrow> action" where
  \<comment> \<open>lines 43 and 44\<close>
  "createScene env = block
     [engineCall env 43 (assign (\<lambda>s. s\<lparr>scene := Some new_Scene\<rparr>)),
      withScene (\<lambda>sc. sc\<lparr>clearColor := Some (Color4 0.1 0.1 0.1 1.0)\<rparr>)]"

definition createCamera :: "Env \<Rightarrow> action" where
  \<comment> \<open>lines 46 to 60\<close>
  "createCamera env = block
     [engineCall env 46 (assign (\<lambda>s. s\<lparr>camera :=
        Some (new_ArcRotateCamera env ''camera'' (- Math_PI / 2) (Math_PI / 2.5) 10 Vector3_Zero)\<rparr>)),
      engineCall env 54 (withCamera attachControl),
      engineCall env 55 (withCamera (setTarget Vector3_Zero)),
      withCamera (\<lambda>c. c\<lparr>lowerRadiusLimit := Some 0.1\<rparr>),
      withCamera (\<lambda>c. c\<lparr>upperRadiusLimit := Some 1000\<rparr>),
      withCamera (\<lambda>c. c\<lparr>wheelDeltaPercentage := 0.01\<rparr>),
      withCamera (\<lambda>c. c\<lparr>panningSensibility := 0\<rparr>),
      withScene (\<lambda>sc. sc\<lparr>activeCamera := Some ''camera''\<rparr>)]"

definition createLights :: "Env \<Rightarrow> action" where
  \<comment> \<open>lines 62 to 65\<close>
  "createLights env = block
     [engineCall env 62 (withScene (\<lambda>sc. sc\<lparr>lights := lights sc @
        [new_Light Hemispheric ''light'' (Vector3 0 1 0)]\<rparr>)),
      engineCall env 63 (withScene (\<lambda>sc. sc\<lparr>lights := lights sc @
        [new_Light Directional ''dirLight'' (Vector3 (- 1) (- 1) (- 1))]\<rparr>)),
      withScene (setIntensity ''light'' 1.0),
      withScene (setIntensity ''dirLight'' 0.5)]"

definition runRenderLoop :: "Env \<Rightarrow> action" where
  \<comment> \<open>lines 67 to 71\<close>
  "runRenderLoop env = engineCall env 67 (withEngine (\<lambda>e. e\<lparr>renderLoopRunning := True\<rparr>))"

definition addAllToScene :: "AssetContainer \<Rightarrow> action" where
  \<comment> \<open>\<open>assetContainer.addAllToScene()\<close>: every mesh of the container joins the scene\<close>
  "addAllToScene c =
     withScene (\<lambda>sc. sc\<lparr>meshes := meshes sc @ [0 ..< length (containerMeshes c)]\<rparr>)"

definition renderMeshes :: "AssetContainer \<Rightarrow> nat list" where
  \<comment> \<open>line 79: \<open>assetContainer.meshes.filter((m) => m.getTotalVertices() > 0)\<close>, as
      references; no statement changes a vertex count, so the filter reads the container\<close>
  "renderMeshes c =
     filter (\<lambda>i. hasVertices (containerMeshes c ! i)) [0 ..< length (containerMeshes c)]"

definition prepareMesh :: "Env \<Rightarrow> nat \<Rightarrow> action" where
  \<comment> \<open>lines 81 to 88, the body of the loop over \<open>assetContainer.meshes\<close>\<close>
  "prepareMesh env index = block
     [engineCall env 81 (withMesh index (\<lambda>m. m\<lparr>enabled := True\<rparr>)),
      withMesh index (\<lambda>m. m\<lparr>isVisible := True\<rparr>),
      (\<lambda>s. if material (meshStore s ! index) = None \<and> scene s \<noteq> None
           then block
             [engineCall env 85 (withMesh index (\<lambda>m. m\<lparr>material := Some
                ((new_StandardMaterial (''defaultMat_'' @ digits index))
                   \<lparr>diffuseColor := Color3 0.8 0.8 0.8\<rparr>)\<rparr>))] s
           else ok s)]"

definition frameCamera :: "Env \<Rightarrow> nat list \<Rightarrow> real \<Rightarrow> action" where
  \<comment> \<open>lines 118 to 131\<close>
  "frameCamera env rm postMaxDimension =
     (let radius = max (postMaxDimension * 1.5) 3;
          upperLimit = max (radius * 4) (radius + 5)
      in block
        [withCamera (\<lambda>c. c\<lparr>useFramingBehavior := False\<rparr>),
         engineCall env 119 (withCamera (setTarget Vector3_Zero)),
         withCamera (\<lambda>c. c\<lparr>radius := radius\<rparr>),
         withCamera (\<lambda>c. c\<lparr>lowerRadiusLimit := Some 0.01\<rparr>),
         withCamera (\<lambda>c. c\<lparr>upperRadiusLimit := Some upperLimit\<rparr>),
         withCamera (\<lambda>c. c\<lparr>minZ := 0.01\<rparr>),
         withCamera (\<lambda>c. c\<lparr>maxZ := nullable (upperRadiusLimit c) * 5\<rparr>),
         engineCall env 130 (zoomOn env rm True),
         withCamera (\<lambda>c. c\<lparr>maxZ := nullable (upperRadiusLimit c) * 5\<rparr>)])"

definition withBounds :: "(Vector3 \<times> Vector3 \<Rightarrow> action) \<Rightarrow> action" where
  \<comment> \<open>\<open>modelPivot.getHierarchyBoundingVectors(true, (m) => m.getTotalVertices() > 0)\<close>,
      and the statements that use its result\<close>
  "withBounds k s =
     (case scene s of None \<Rightarrow> (Some TypeError, s)
      | Some sc \<Rightarrow>
          (case modelPivot sc of None \<Rightarrow> (Some TypeError, s)
           | Some p \<Rightarrow>
               k (getHierarchyBoundingVectors p (meshStore s) hasVertices) s))"

definition scaleAndFrame :: "Env \<Rightarrow> nat list \<Rightarrow> Vector3 \<times> Vector3 \<Rightarrow> action" where
  \<comment> \<open>lines 99 to 135\<close>
  "scaleAndFrame env rm preBounds =
     (let center = Vector3_Center (fst preBounds) (snd preBounds);
          size = Vector3_subtract (snd preBounds) (fst preBounds);
          maxDimension = Math_max3 (vx size) (vy size) (vz size)
      in if maxDimension > 0
         then
           (let desiredSize = 10;
                scale = desiredSize / maxDimension
            in block
              [withPivot (\<lambda>p. p\<lparr>scaling := Vector3 scale scale scale\<rparr>),
               withPivot (\<lambda>p. p\<lparr>position := Vector3_scale center (- scale)\<rparr>),
               engineCall env 109 ok,
               engineCall env 111 (withBounds (\<lambda>postBounds.
                 (let postSize = Vector3_subtract (snd postBounds) (fst postBounds);
                      postMaxDimension = Math_max3 (vx postSize) (vy postSize) (vz postSize)
                  in frameCamera env rm postMaxDimension)))])
         else block
           [engineCall env 133 (withCamera (setTarget Vector3_Zero)),
            withCamera (\<lambda>c. c\<lparr>radius := 10\<rparr>)])"

definition normalizationPass :: "Env \<Rightarrow> nat list \<Rightarrow> action" where
  \<comment> \<open>lines 91 to 140\<close>
  "normalizationPass env rm =
     (if length rm > 0
      then block
        [engineCall env 92 (withScene (\<lambda>sc. sc\<lparr>modelPivot :=
           Some (new_TransformNode ''modelPivot'')\<rparr>)),
         forEach (\<lambda>m. engineCall env 93 (withMesh m (setParent PivotNode))) rm,
         engineCall env 94 ok,
         engineCall env 95 (withBounds (scaleAndFrame env rm))]
      else block
        [console_warn ''No renderable meshes found (0 vertices)'',
         engineCall env 138 (withCamera (setTarget Vector3_Zero)),
         withCamera (\<lambda>c. c\<lparr>radius := 10\<rparr>)])"

definition loadModel :: "Env \<Rightarrow> string \<Rightarrow> action" where
  \<comment> \<open>lines 73 to 140\<close>
  "loadModel env modelUrl s =
     (case LoadAssetContainerAsync env modelUrl of
        Rejected e \<Rightarrow> throw e s
      | Resolved None \<Rightarrow> throw (Exn ''Failed to load asset container'') s
      | Resolved (Some assetContainer) \<Rightarrow> block
          [assign (\<lambda>s. s\<lparr>meshStore := containerMeshes assetContainer\<rparr>),
           engineCall env 77 (addAllToScene assetContainer),
           forEach (prepareMesh env) [0 ..< length (containerMeshes assetContainer)],
           normalizationPass env (renderMeshes assetContainer)] s)"

definition subscribeResize :: "Env \<Rightarrow> action" where
  \<comment> \<open>lines 142 to 147\<close>
  "subscribeResize env = block
     [assign (\<lambda>s. s\<lparr>handleResize := Some ()\<rparr>),
      engineCall env 147 (assign (\<lambda>s. s\<lparr>resizeListeners := Suc (resizeListeners s)\<rparr>))]"

definition onMount_try :: "Env \<Rightarrow> string \<Rightarrow> action" where
  \<comment> \<open>the body of the \<open>try\<close> block, lines 38 to 147\<close>
  "onMount_try env modelUrl = block
     [createEngine env, createScene env, createCamera env, createLights env,
      runRenderLoop env, loadModel env modelUrl, subscribeResize env]"

definition onMount :: "Env \<Rightarrow> string \<Rightarrow> action" where
  \<comment> \<open>lines 34 to 151. The callback is asynchronous: the result is the session once the
      promise it returns has settled, and an exception in the result is a rejection of
      that promise\<close>
  "onMount env modelUrl s =
     (if canvasElement s = None \<or> modelUrl = []
      then ok s
      else tryCatch (onMount_try env modelUrl) (console_error ''Error loading model:'') s)"

section \<open>Deactivation: \<open>onDestroy\<close>\<close>

definition onDestroy :: action where
  \<comment> \<open>lines 153 to 166; the engine's release calls themselves are taken to succeed\<close>
  "onDestroy = block
     [(\<lambda>s. if handleResize s \<noteq> None
           then assign (\<lambda>s. s\<lparr>resizeListeners := resizeListeners s - 1\<rparr>) s else ok s),
      (\<lambda>s. if camera s \<noteq> None then withCamera detachControl s else ok s),
      (\<lambda>s. if engine s \<noteq> None
           then withEngine (\<lambda>e. e\<lparr>engineDisposed := True, renderLoopRunning := False\<rparr>) s
           else ok s),
      (\<lambda>s. if scene s \<noteq> None
           then withScene (\<lambda>sc. sc\<lparr>sceneDisposed := True\<rparr>) s else ok s)]"

section \<open>Notions used to state the properties\<close>

definition engineLines :: "nat list" where
  \<comment> \<open>the source lines of \<open>onMount\<close> that call into the engine or the host\<close>
  "engineLines =
     [38, 43, 46, 54, 55, 62, 63, 67, 77, 81, 85, 92, 93, 94, 95, 109, 111, 119, 130,
      133, 138, 147]"

definition quiet :: "Env \<Rightarrow> nat list \<Rightarrow> bool" where
  \<comment> \<open>none of the calls on the given source lines throws\<close>
  "quiet env ls = list_all (\<lambda>l. throwsAt env l = None) ls"

definition maxDimensionOf :: "Vector3 \<times> Vector3 \<Rightarrow> real" where
  \<comment> \<open>the largest extent of a bounding box, as lines 100 to 101 and 115 to 116 compute it\<close>
  "maxDimensionOf b =
     (let size = Vector3_subtract (snd b) (fst b) in Math_max3 (vx size) (vy size) (vz size))"

definition centerOf :: "Vector3 \<times> Vector3 \<Rightarrow> Vector3" where
  \<comment> \<open>the centre of a bounding box, as line 99 computes it\<close>
  "centerOf b = Vector3_Center (fst b) (snd b)"

definition preScaleBounds :: "AssetContainer \<Rightarrow> Vector3 \<times> Vector3" where
  \<comment> \<open>the bounding box that line 95 measures: of the container's meshes with vertices,
      re-parented under the new, untransformed pivot\<close>
  "preScaleBounds c =
     getHierarchyBoundingVectors (new_TransformNode ''modelPivot'')
       (map (setParent PivotNode) (filter hasVertices (containerMeshes c))) hasVertices"

definition pivotOf :: "Session \<Rightarrow> TransformNode option" where
  \<comment> \<open>the model pivot of a session, if it has one\<close>
  "pivotOf s = (case scene s of None \<Rightarrow> None | Some sc \<Rightarrow> modelPivot sc)"

definition hierarchyBounds :: "Session \<Rightarrow> (Vector3 \<times> Vector3) option" where
  \<comment> \<open>the bounding box of the pivot's hierarchy in a session, as the engine measures it\<close>
  "hierarchyBounds s =
     map_option (\<lambda>p. getHierarchyBoundingVectors p (meshStore s) hasVertices) (pivotOf s)"

definition limitsOrdered :: "ArcRotateCamera \<Rightarrow> bool" where
  \<comment> \<open>both distance limits are set, lower below upper, and the near plane is not beyond
      the far plane\<close>
  "limitsOrdered c =
     (case (lowerRadiusLimit c, upperRadiusLimit c) of
        (Some lo, Some hi) \<Rightarrow> lo \<le> hi \<and> minZ c \<le> maxZ c
      | _ \<Rightarrow> False)"

subsection \<open>The states that a run without exceptions passes through\<close>

definition prepared :: "nat \<Rightarrow> AbstractMesh \<Rightarrow> AbstractMesh" where
  \<comment> \<open>a mesh of the container, at the given index, once lines 81 to 88 have run on it\<close>
  "prepared i m =
     (case material m of
        None \<Rightarrow> m\<lparr>enabled := True, isVisible := True,
                  material := Some \<lparr>materialName = ''defaultMat_'' @ digits i,
                                    diffuseColor = Color3 0.8 0.8 0.8, materialAlpha = 1\<rparr>\<rparr>
      | Some mat \<Rightarrow> m\<lparr>enabled := True, isVisible := True\<rparr>)"

definition preparedStore :: "AssetContainer \<Rightarrow> AbstractMesh list" where
  \<comment> \<open>the mesh objects once the loop of lines 80 to 89 has run\<close>
  "preparedStore c =
     fold (\<lambda>i ms. ms[i := prepared i (ms ! i)]) [0 ..< length (containerMeshes c)]
       (containerMeshes c)"

definition reparent :: "nat list \<Rightarrow> AbstractMesh list \<Rightarrow> AbstractMesh list" where
  \<comment> \<open>the mesh objects once the loop of line 93 has run over the given references\<close>
  "reparent rm ms = fold (\<lambda>i ms. ms[i := setParent PivotNode (ms ! i)]) rm ms"

definition unparent :: "AbstractMesh \<Rightarrow> AbstractMesh" where
  \<comment> \<open>a mesh without its place in the hierarchy\<close>
  "unparent m = m\<lparr>parent := None\<rparr>"

definition renderableVertices :: "AbstractMesh list \<Rightarrow> Vector3 list" where
  "renderableVertices ms = concat (map vertices (filter hasVertices ms))"

definition boundingBox :: "Vector3 list \<Rightarrow> Vector3 \<Rightarrow> Vector3 \<times> Vector3" where
  "boundingBox pts d =
     (case pts of [] \<Rightarrow> (d, d) | v # vs \<Rightarrow> (fold minimize vs v, fold maximize vs v))"

definition cameraAfterSetup :: "Env \<Rightarrow> ArcRotateCamera" where
  \<comment> \<open>the camera once lines 46 to 59 have run\<close>
  "cameraAfterSetup env =
     (cameraDefaults env)\<lparr>cameraName := ''camera'', alpha := - Math_PI / 2,
        beta := Math_PI / 2.5, radius := 10, target := Vector3_Zero, controlAttached := True,
        lowerRadiusLimit := Some 0.1, upperRadiusLimit := Some 1000,
        wheelDeltaPercentage := 0.01, panningSensibility := 0\<rparr>"

definition sceneAfterSetup :: Scene where
  \<comment> \<open>the scene once lines 43 to 65 have run\<close>
  "sceneAfterSetup =
     \<lparr>clearColor = Some (Color4 0.1 0.1 0.1 1.0), activeCamera = Some ''camera'',
      lights = [\<lparr>lightName = ''light'', lightKind = Hemispheric, direction = Vector3 0 1 0,
                 intensity = Some 1.0\<rparr>,
                \<lparr>lightName = ''dirLight'', lightKind = Directional,
                 direction = Vector3 (- 1) (- 1) (- 1), intensity = Some 0.5\<rparr>],
      meshes = [], modelPivot = None, sceneDisposed = False\<rparr>"

definition atPassEntry :: "Env \<Rightarrow> AssetContainer \<Rightarrow> Session \<Rightarrow> Session" where
  \<comment> \<open>the session at line 91, where the normalization pass starts\<close>
  "atPassEntry env c s =
     s\<lparr>engine := Some ((new_Engine True True True)\<lparr>renderLoopRunning := True\<rparr>),
       scene := Some (sceneAfterSetup\<lparr>meshes := [0 ..< length (containerMeshes c)]\<rparr>),
       camera := Some (cameraAfterSetup env),
       meshStore := preparedStore c\<rparr>"

definition withPivotNode :: "TransformNode \<Rightarrow> nat list \<Rightarrow> Session \<Rightarrow> Session" where
  \<comment> \<open>a session with the given pivot in its scene and the given meshes under it\<close>
  "withPivotNode p rm s =
     s\<lparr>scene := map_option (\<lambda>sc. sc\<lparr>modelPivot := Some p\<rparr>) (scene s),
       meshStore := reparent rm (meshStore s)\<rparr>"

definition scaledPivot :: "AssetContainer \<Rightarrow> TransformNode" where
  \<comment> \<open>the pivot once lines 107 and 108 have run\<close>
  "scaledPivot c =
     (let b = preScaleBounds c; k = 10 / maxDimensionOf b
      in \<lparr>nodeName = ''modelPivot'', scaling = Vector3 k k k,
          position = Vector3_scale (Vector3_Center (fst b) (snd b)) (- k)\<rparr>)"

definition aimed :: "real \<Rightarrow> ArcRotateCamera \<Rightarrow> ArcRotateCamera" where
  \<comment> \<open>a camera once lines 118 to 128 have run, for the given post-scale max dimension\<close>
  "aimed postMaxDimension c =
     c\<lparr>useFramingBehavior := False, target := Vector3_Zero,
       radius := max (postMaxDimension * 1.5) 3,
       lowerRadiusLimit := Some 0.01,
       upperRadiusLimit := Some (max (max (postMaxDimension * 1.5) 3 * 4)
                                     (max (postMaxDimension * 1.5) 3 + 5)),
       minZ := 0.01,
       maxZ := max (max (postMaxDimension * 1.5) 3 * 4) (max (postMaxDimension * 1.5) 3 + 5) * 5\<rparr>"

definition beforeZoom :: "Env \<Rightarrow> AssetContainer \<Rightarrow> Session \<Rightarrow> Session" where
  \<comment> \<open>the session that line 130 hands to the engine's \<open>zoomOn\<close>\<close>
  "beforeZoom env c s =
     (withPivotNode (scaledPivot c) (renderMeshes c) (atPassEntry env c s))
       \<lparr>camera := Some (aimed 10 (cameraAfterSetup env))\<rparr>"

definition zoomed :: "ZoomOutcome \<Rightarrow> ArcRotateCamera \<Rightarrow> ArcRotateCamera" where
  \<comment> \<open>a camera once lines 130 and 131 have run, for the outcome of \<open>zoomOn\<close>\<close>
  "zoomed z c = c\<lparr>radius := zoomRadius z, target := zoomTarget z,
                   maxZ := nullable (upperRadiusLimit c) * 5\<rparr>"

definition subscribed :: "Session \<Rightarrow> Session" where
  \<comment> \<open>a session once lines 142 to 147 have run\<close>
  "subscribed s = s\<lparr>handleResize := Some (), resizeListeners := Suc (resizeListeners s)\<rparr>"

subsection \<open>Concrete sessions and environments\<close>

definition initialSession :: Session where
  \<comment> \<open>the component before activation, its render surface not bound\<close>
  "initialSession =
     \<lparr>canvasElement = None, engine = None, scene = None, camera = None,
      handleResize = None, meshStore = [], console = [], resizeListeners = 0\<rparr>"

definition boundSession :: Session where
  \<comment> \<open>the component before activation, its render surface bound\<close>
  "boundSession = initialSession\<lparr>canvasElement := Some ()\<rparr>"

definition exampleMesh :: AbstractMesh where
  \<comment> \<open>the mesh of section 8, example 7: it spans (0,0,0)-(2,4,2) and has no material\<close>
  "exampleMesh =
     \<lparr>vertices = [Vector3 0 0 0, Vector3 2 4 2], material = None,
      enabled = False, isVisible = False, parent = None\<rparr>"

definition exampleContainer :: AssetContainer where
  "exampleContainer = \<lparr>containerMeshes = [exampleMesh]\<rparr>"

definition pointContainer :: AssetContainer where
  \<comment> \<open>one mesh, all of whose vertices lie at (1,2,3)\<close>
  "pointContainer =
     \<lparr>containerMeshes = [exampleMesh\<lparr>vertices := [Vector3 1 2 3, Vector3 1 2 3]\<rparr>]\<rparr>"

definition emptyContainer :: AssetContainer where
  \<comment> \<open>one mesh, without vertices\<close>
  "emptyContainer = \<lparr>containerMeshes = [exampleMesh\<lparr>vertices := []\<rparr>]\<rparr>"

definition exampleCameraDefaults :: ArcRotateCamera where
  "exampleCameraDefaults =
     \<lparr>cameraName = [], alpha = 0, beta = 0, radius = 0, target = Vector3_Zero,
      controlAttached = False, lowerRadiusLimit = None, upperRadiusLimit = None,
      wheelDeltaPercentage = 0, panningSensibility = 1000, useFramingBehavior = False,
      minZ = 1, maxZ = 10000\<rparr>"

definition exampleEnv :: Env where
  \<comment> \<open>no call throws, the load yields the example mesh, and \<open>zoomOn\<close> frames whatever it
      is given from distance 12\<close>
  "exampleEnv =
     \<lparr>throwsAt = (\<lambda>l. None),
      LoadAssetContainerAsync = (\<lambda>url. Resolved (Some exampleContainer)),
      cameraDefaults = exampleCameraDefaults,
      zoomOnEngine = (\<lambda>s ms doNotUpdateMaxZ.
        \<lparr>zoomRadius = 12, zoomTarget = Vector3_Zero, zoomMaxZ = 24\<rparr>)\<rparr>"

definition pointEnv :: Env where
  "pointEnv = exampleEnv\<lparr>LoadAssetContainerAsync := (\<lambda>url. Resolved (Some pointContainer))\<rparr>"

definition emptyEnv :: Env where
  "emptyEnv = exampleEnv\<lparr>LoadAssetContainerAsync := (\<lambda>url. Resolved (Some emptyContainer))\<rparr>"

definition failingLoadEnv :: Env where
  \<comment> \<open>as \<open>exampleEnv\<close>, but the load is rejected\<close>
  "failingLoadEnv =
     exampleEnv\<lparr>LoadAssetContainerAsync := (\<lambda>url. Rejected (Exn ''404''))\<rparr>"

definition failingEngineEnv :: Env where
  \<comment> \<open>as \<open>exampleEnv\<close>, but the engine cannot be created\<close>
  "failingEngineEnv =
     exampleEnv\<lparr>throwsAt := (\<lambda>l. if l = 38 then Some (Exn ''WebGL not supported'') else None)\<rparr>"

definition strayCamera :: ArcRotateCamera where
  \<comment> \<open>a camera that looks at (7,8,9) from distance 99\<close>
  "strayCamera = exampleCameraDefaults\<lparr>radius := 99, target := Vector3 7 8 9\<rparr>"

definition passSession :: "AssetContainer \<Rightarrow> Session" where
  \<comment> \<open>a session at line 91 that holds the meshes of the container, an empty scene and
      the stray camera\<close>
  "passSession c =
     boundSession\<lparr>scene := Some new_Scene, camera := Some strayCamera,
                    meshStore := containerMeshes c\<rparr>"

section \<open>Running the actions\<close>

lemmas action_defs =
  ok_def throw_def assign_def andThen_def tryCatch_def engineCall_def
  withEngine_def withScene_def withCamera_def withPivot_def withMesh_def
  console_warn_def console_error_def

lemmas setup_defs =
  createEngine_def createScene_def createCamera_def createLights_def runRenderLoop_def
  subscribeResize_def new_Engine_def new_Scene_def new_ArcRotateCamera_def new_Light_def
  setIntensity_def setTarget_def attachControl_def detachControl_def Vector3_Zero_def
  Math_PI_def

lemmas pass_defs =
  loadModel_def addAllToScene_def renderMeshes_def prepareMesh_def frameCamera_def
  withBounds_def scaleAndFrame_def normalizationPass_def zoomOn_def nullable_def
  new_StandardMaterial_def new_TransformNode_def setParent_def
  getHierarchyBoundingVectors_def hierarchyPoints_def toWorld_def minimize_def maximize_def
  Vector3_subtract_def Vector3_scale_def Vector3_Center_def Math_max3_def
  hasVertices_def getTotalVertices_def

lemmas example_defs =
  initialSession_def boundSession_def exampleMesh_def exampleContainer_def
  pointContainer_def emptyContainer_def exampleCameraDefaults_def
  exampleEnv_def pointEnv_def emptyEnv_def failingLoadEnv_def failingEngineEnv_def
  strayCamera_def passSession_def

lemma engineCall_quiet: "throwsAt env l = None \<Longrightarrow> engineCall env l a = a"
  by (rule ext) (simp add: engineCall_def)

lemma andThen_ok [simp]: "andThen a ok = a"
  by (rule ext) (simp add: andThen_def ok_def split: prod.splits option.splits)

subsection \<open>The loops over the meshes\<close>

lemma forEach_store:
  assumes "\<And>i s. g i s = (None, s\<lparr>meshStore := u i (meshStore s)\<rparr>)"
  shows "forEach g is s = (None, s\<lparr>meshStore := fold u is (meshStore s)\<rparr>)"
proof (induction "is" arbitrary: s)
  case Nil
  show ?case by (simp add: ok_def)
next
  case (Cons i "is")
  have "g i s = (None, s\<lparr>meshStore := u i (meshStore s)\<rparr>)" by (rule assms)
  then show ?case by (simp add: andThen_def Cons.IH)
qed

lemma forEach_setParent:
  "forEach (\<lambda>m. withMesh m (setParent PivotNode)) rm s =
     (None, s\<lparr>meshStore := reparent rm (meshStore s)\<rparr>)"
  unfolding reparent_def
  by (rule forEach_store) (simp add: withMesh_def)

lemma fold_update_nth:
  "distinct is \<Longrightarrow> k < length ms \<Longrightarrow>
   fold (\<lambda>i ms. ms[i := f i (ms ! i)]) is ms ! k = (if k \<in> set is then f k (ms ! k) else ms ! k)"
proof (induction "is" arbitrary: ms)
  case Nil
  show ?case by simp
next
  case (Cons i "is")
  from Cons.prems have d: "distinct is" and ni: "i \<notin> set is" by simp_all
  from Cons.prems have k: "k < length (ms[i := f i (ms ! i)])" by simp
  show ?case
    using Cons.IH [OF d k] ni Cons.prems(2) by (cases "k = i") (auto simp: nth_list_update)
qed

lemma fold_update_length:
  "length (fold (\<lambda>i ms. ms[i := f i (ms ! i)]) is ms) = length ms"
  by (induction "is" arbitrary: ms) simp_all

lemma prepareMesh_run:
  assumes "throwsAt env 81 = None" "throwsAt env 85 = None" "scene s \<noteq> None"
    "i < length (meshStore s)"
  shows "prepareMesh env i s =
    (None, s\<lparr>meshStore := (meshStore s)[i := prepared i (meshStore s ! i)]\<rparr>)"
  using assms
  by (cases "material (meshStore s ! i)")
     (simp_all add: prepareMesh_def engineCall_quiet andThen_def withMesh_def ok_def prepared_def
        new_StandardMaterial_def)

lemma forEach_prepareMesh:
  assumes q: "throwsAt env 81 = None" "throwsAt env 85 = None"
  shows "scene s \<noteq> None \<Longrightarrow> \<forall>i \<in> set is. i < length (meshStore s) \<Longrightarrow>
    forEach (prepareMesh env) is s =
      (None, s\<lparr>meshStore := fold (\<lambda>i ms. ms[i := prepared i (ms ! i)]) is (meshStore s)\<rparr>)"
proof (induction "is" arbitrary: s)
  case Nil
  show ?case by (simp add: ok_def)
next
  case (Cons i "is")
  let ?s1 = "s\<lparr>meshStore := (meshStore s)[i := prepared i (meshStore s ! i)]\<rparr>"
  have step: "prepareMesh env i s = (None, ?s1)"
    using prepareMesh_run [OF q Cons.prems(1)] Cons.prems(2) by simp
  have "forEach (prepareMesh env) is ?s1 =
      (None, ?s1\<lparr>meshStore := fold (\<lambda>i ms. ms[i := prepared i (ms ! i)]) is (meshStore ?s1)\<rparr>)"
    using Cons.prems by (intro Cons.IH) simp_all
  then show ?case by (simp add: andThen_def step)
qed

lemma length_preparedStore [simp]: "length (preparedStore c) = length (containerMeshes c)"
  by (simp add: preparedStore_def fold_update_length)

lemma nth_preparedStore:
  "i < length (containerMeshes c) \<Longrightarrow> preparedStore c ! i = prepared i (containerMeshes c ! i)"
  by (simp add: preparedStore_def fold_update_nth)

lemma vertices_prepared [simp]: "vertices (prepared i m) = vertices m"
  by (simp add: prepared_def split: option.splits)

lemma hasVertices_prepared [simp]: "hasVertices (prepared i m) = hasVertices m"
  by (simp add: hasVertices_def getTotalVertices_def)

lemma vertices_preparedStore: "map vertices (preparedStore c) = map vertices (containerMeshes c)"
  by (rule nth_equalityI) (simp_all add: nth_preparedStore)

lemma hasVertices_setParent [simp]: "hasVertices (setParent n m) = hasVertices m"
  by (simp add: hasVertices_def getTotalVertices_def setParent_def)

lemma vertices_setParent [simp]: "vertices (setParent n m) = vertices m"
  by (simp add: setParent_def)

lemma parent_setParent [simp]: "parent (setParent n m) = Some n"
  by (simp add: setParent_def)

lemma reparent_eq_map:
  assumes "rm = filter (\<lambda>i. hasVertices (ms ! i)) [0 ..< length ms]"
  shows "reparent rm ms = map (\<lambda>m. if hasVertices m then setParent PivotNode m else m) ms"
proof (rule nth_equalityI)
  have len: "length (reparent rm ms) = length ms"
    unfolding reparent_def by (rule fold_update_length [of "\<lambda>i. setParent PivotNode"])
  show "length (reparent rm ms) =
      length (map (\<lambda>m. if hasVertices m then setParent PivotNode m else m) ms)"
    by (simp add: len)
next
  have len: "length (reparent rm ms) = length ms"
    unfolding reparent_def by (rule fold_update_length [of "\<lambda>i. setParent PivotNode"])
  fix k assume "k < length (reparent rm ms)"
  then have k: "k < length ms" by (simp add: len)
  have d: "distinct rm" by (simp add: assms)
  show "reparent rm ms ! k = map (\<lambda>m. if hasVertices m then setParent PivotNode m else m) ms ! k"
    using fold_update_nth [OF d k, of "\<lambda>i. setParent PivotNode"] k
    by (simp add: reparent_def assms)
qed

lemma renderMeshes_preparedStore:
  "renderMeshes c =
     filter (\<lambda>i. hasVertices (preparedStore c ! i)) [0 ..< length (preparedStore c)]"
  unfolding renderMeshes_def length_preparedStore
  by (rule filter_cong) (simp_all add: nth_preparedStore)

lemma reparent_preparedStore:
  "reparent (renderMeshes c) (preparedStore c) =
     map (\<lambda>m. if hasVertices m then setParent PivotNode m else m) (preparedStore c)"
  by (rule reparent_eq_map) (rule renderMeshes_preparedStore)

lemma map_unparent_reparent: "map unparent (reparent rm ms) = map unparent ms"
  unfolding reparent_def
proof (induction rm arbitrary: ms)
  case Nil
  show ?case by simp
next
  case (Cons i rm)
  have "map unparent (ms[i := setParent PivotNode (ms ! i)]) = map unparent ms"
  proof (rule nth_equalityI)
    show "length (map unparent (ms[i := setParent PivotNode (ms ! i)])) = length (map unparent ms)"
      by simp
  next
    fix k assume "k < length (map unparent (ms[i := setParent PivotNode (ms ! i)]))"
    then have k: "k < length ms" by simp
    show "map unparent (ms[i := setParent PivotNode (ms ! i)]) ! k = map unparent ms ! k"
      using k by (cases "k = i") (simp_all add: unparent_def setParent_def)
  qed
  then show ?case by (simp add: Cons.IH)
qed

subsection \<open>Bounding boxes under a uniform scale and a translation\<close>

lemma getHBV_boundingBox:
  "getHierarchyBoundingVectors p ms pred = boundingBox (hierarchyPoints p ms pred) (position p)"
  by (simp add: getHierarchyBoundingVectors_def boundingBox_def)

lemma hierarchyPoints_reparented:
  "hierarchyPoints p (map (\<lambda>m. if hasVertices m then setParent PivotNode m else m) ms)
     hasVertices = map (toWorld p) (renderableVertices ms)"
  by (induction ms) (simp_all add: hierarchyPoints_def renderableVertices_def)

lemma hierarchyPoints_filtered:
  "hierarchyPoints p (map (setParent PivotNode) (filter hasVertices ms)) hasVertices =
     map (toWorld p) (renderableVertices ms)"
  by (induction ms) (simp_all add: hierarchyPoints_def renderableVertices_def)

lemma toWorld_new [simp]: "toWorld (new_TransformNode nm) v = v"
  by (cases v) (simp add: toWorld_def new_TransformNode_def Vector3_Zero_def)

lemma map_toWorld_new [simp]: "map (toWorld (new_TransformNode nm)) vs = vs"
  by (induction vs) simp_all

lemma position_new [simp]: "position (new_TransformNode nm) = Vector3_Zero"
  by (simp add: new_TransformNode_def)

lemma scaling_new [simp]: "scaling (new_TransformNode nm) = Vector3 1 1 1"
  by (simp add: new_TransformNode_def)

lemma preScaleBounds_eq:
  "preScaleBounds c = boundingBox (renderableVertices (containerMeshes c)) Vector3_Zero"
  by (simp add: preScaleBounds_def getHBV_boundingBox hierarchyPoints_filtered)

lemma renderableVertices_cong:
  assumes "map vertices ms = map vertices ms'"
  shows "renderableVertices ms = renderableVertices ms'"
proof -
  have h: "hasVertices = (\<lambda>m. vertices m \<noteq> [])"
    by (rule ext) (simp add: hasVertices_def getTotalVertices_def)
  have r: "\<And>xs. renderableVertices xs = concat (filter (\<lambda>vs. vs \<noteq> []) (map vertices xs))"
    by (simp add: renderableVertices_def filter_map o_def h)
  show ?thesis by (simp add: r assms)
qed

lemma renderableVertices_nonempty:
  assumes "renderMeshes c \<noteq> []"
  shows "renderableVertices (containerMeshes c) \<noteq> []"
proof -
  from assms obtain i
    where i: "i < length (containerMeshes c)" "hasVertices (containerMeshes c ! i)"
    by (auto simp: renderMeshes_def filter_empty_conv)
  then have "containerMeshes c ! i \<in> set (filter hasVertices (containerMeshes c))"
    by simp
  moreover have "vertices (containerMeshes c ! i) \<noteq> []"
    using i(2) by (simp add: hasVertices_def getTotalVertices_def)
  ultimately show ?thesis
    by (auto simp: renderableVertices_def)
qed

lemma bounds_at_pass:
  "getHierarchyBoundingVectors p (reparent (renderMeshes c) (preparedStore c)) hasVertices =
     boundingBox (map (toWorld p) (renderableVertices (containerMeshes c))) (position p)"
  by (simp add: getHBV_boundingBox reparent_preparedStore hierarchyPoints_reparented
        renderableVertices_cong [OF vertices_preparedStore])

lemma preBounds_at_pass:
  "getHierarchyBoundingVectors (new_TransformNode nm)
     (reparent (renderMeshes c) (preparedStore c)) hasVertices = preScaleBounds c"
  by (simp add: bounds_at_pass preScaleBounds_eq)

lemma affine_min:
  fixes k :: real
  shows "0 \<le> k \<Longrightarrow> min (k * x + t) (k * y + t) = k * min x y + t"
  by (simp add: min_mult_distrib_left flip: min_add_distrib_left)

lemma affine_max:
  fixes k :: real
  shows "0 \<le> k \<Longrightarrow> max (k * x + t) (k * y + t) = k * max x y + t"
  by (simp add: max_mult_distrib_left flip: max_add_distrib_left)

lemma toWorld_minimize:
  "scaling p = Vector3 k k k \<Longrightarrow> 0 \<le> k \<Longrightarrow>
   minimize (toWorld p a) (toWorld p b) = toWorld p (minimize a b)"
  by (simp add: minimize_def toWorld_def affine_min)

lemma toWorld_maximize:
  "scaling p = Vector3 k k k \<Longrightarrow> 0 \<le> k \<Longrightarrow>
   maximize (toWorld p a) (toWorld p b) = toWorld p (maximize a b)"
  by (simp add: maximize_def toWorld_def affine_max)

lemma fold_minimize_toWorld:
  assumes "scaling p = Vector3 k k k" "0 \<le> k"
  shows "fold minimize (map (toWorld p) vs) (toWorld p v) = toWorld p (fold minimize vs v)"
proof (induction vs arbitrary: v)
  case Nil
  show ?case by simp
next
  case (Cons a vs)
  show ?case
    using Cons.IH [of "minimize a v"] toWorld_minimize [OF assms, of a v] by simp
qed

lemma fold_maximize_toWorld:
  assumes "scaling p = Vector3 k k k" "0 \<le> k"
  shows "fold maximize (map (toWorld p) vs) (toWorld p v) = toWorld p (fold maximize vs v)"
proof (induction vs arbitrary: v)
  case Nil
  show ?case by simp
next
  case (Cons a vs)
  show ?case
    using Cons.IH [of "maximize a v"] toWorld_maximize [OF assms, of a v] by simp
qed

lemma boundingBox_toWorld:
  assumes "scaling p = Vector3 k k k" "0 \<le> k" "pts \<noteq> []"
  shows "boundingBox (map (toWorld p) pts) d =
           (toWorld p (fst (boundingBox pts d')), toWorld p (snd (boundingBox pts d')))"
  using assms(3)
  by (cases pts)
     (simp_all add: boundingBox_def fold_minimize_toWorld [OF assms(1,2)]
        fold_maximize_toWorld [OF assms(1,2)])

lemma maxDimensionOf_toWorld:
  assumes "scaling p = Vector3 k k k" "0 \<le> k"
  shows "maxDimensionOf (toWorld p a, toWorld p b) = k * maxDimensionOf (a, b)"
  using assms(2)
  by (simp add: maxDimensionOf_def Let_def Vector3_subtract_def toWorld_def Math_max3_def
        assms(1) max_mult_distrib_left right_diff_distrib)

lemma center_toWorld:
  assumes "scaling p = Vector3 k k k"
    "position p = Vector3_scale (Vector3_Center a b) (- k)"
  shows "Vector3_Center (toWorld p a) (toWorld p b) = Vector3_Zero"
  by (simp add: Vector3_Center_def toWorld_def assms Vector3_scale_def Vector3_Zero_def
        distrib_left)

lemma scaledPivot_scaling:
  "scaling (scaledPivot c) =
     Vector3 (10 / maxDimensionOf (preScaleBounds c)) (10 / maxDimensionOf (preScaleBounds c))
       (10 / maxDimensionOf (preScaleBounds c))"
  by (simp add: scaledPivot_def Let_def)

lemma scaledPivot_position:
  "position (scaledPivot c) =
     Vector3_scale (Vector3_Center (fst (preScaleBounds c)) (snd (preScaleBounds c)))
       (- (10 / maxDimensionOf (preScaleBounds c)))"
  by (simp add: scaledPivot_def Let_def)

lemma postBounds_scaled:
  assumes ne: "renderMeshes c \<noteq> []" and pos: "0 < maxDimensionOf (preScaleBounds c)"
  shows "getHierarchyBoundingVectors (scaledPivot c)
           (reparent (renderMeshes c) (preparedStore c)) hasVertices =
         (toWorld (scaledPivot c) (fst (preScaleBounds c)),
          toWorld (scaledPivot c) (snd (preScaleBounds c)))"
proof -
  have k: "0 \<le> 10 / maxDimensionOf (preScaleBounds c)"
    using pos by simp
  show ?thesis
    unfolding bounds_at_pass preScaleBounds_eq
    by (rule boundingBox_toWorld [OF scaledPivot_scaling k renderableVertices_nonempty [OF ne]])
qed

lemma postMaxDimension_scaled:
  assumes ne: "renderMeshes c \<noteq> []" and pos: "0 < maxDimensionOf (preScaleBounds c)"
  shows "maxDimensionOf (getHierarchyBoundingVectors (scaledPivot c)
           (reparent (renderMeshes c) (preparedStore c)) hasVertices) = 10"
proof -
  have k: "0 \<le> 10 / maxDimensionOf (preScaleBounds c)"
    using pos by simp
  show ?thesis
    using pos
    by (simp add: postBounds_scaled [OF ne pos] maxDimensionOf_toWorld [OF scaledPivot_scaling k])
qed

lemma postCenter_scaled:
  assumes ne: "renderMeshes c \<noteq> []" and pos: "0 < maxDimensionOf (preScaleBounds c)"
  shows "centerOf (getHierarchyBoundingVectors (scaledPivot c)
           (reparent (renderMeshes c) (preparedStore c)) hasVertices) = Vector3_Zero"
  by (simp add: centerOf_def postBounds_scaled [OF ne pos]
        center_toWorld [OF scaledPivot_scaling scaledPivot_position])

subsection \<open>The normalization pass, statement by statement\<close>

lemma frameCamera_run:
  assumes "throwsAt env 119 = None" "throwsAt env 130 = None" "camera s = Some cam"
  shows "frameCamera env rm pm s =
    (None, s\<lparr>camera := Some ((aimed pm cam)
       \<lparr>radius := zoomRadius (zoomOnEngine env (s\<lparr>camera := Some (aimed pm cam)\<rparr>) rm True),
        target := zoomTarget (zoomOnEngine env (s\<lparr>camera := Some (aimed pm cam)\<rparr>) rm True),
        maxZ := max (max (pm * 1.5) 3 * 4) (max (pm * 1.5) 3 + 5) * 5\<rparr>)\<rparr>)"
  using assms
  by (simp add: frameCamera_def Let_def engineCall_quiet andThen_def withCamera_def zoomOn_def
        setTarget_def aimed_def nullable_def)

lemma scaleAndFrame_zero:
  assumes "throwsAt env 133 = None" "camera s = Some cam" "\<not> 0 < maxDimensionOf b"
  shows "scaleAndFrame env rm b s =
    (None, s\<lparr>camera := Some (cam\<lparr>target := Vector3_Zero, radius := 10\<rparr>)\<rparr>)"
  using assms
  by (simp add: scaleAndFrame_def maxDimensionOf_def Let_def engineCall_quiet andThen_def
        withCamera_def setTarget_def ok_def)

lemma scaleAndFrame_scaled:
  assumes q: "throwsAt env 109 = None" "throwsAt env 111 = None"
    and s: "scene s = Some sc" "modelPivot sc = Some p0"
    and pos: "0 < maxDimensionOf b"
  shows "scaleAndFrame env rm b s =
    frameCamera env rm
      (maxDimensionOf (getHierarchyBoundingVectors
         (p0\<lparr>scaling := Vector3 (10 / maxDimensionOf b) (10 / maxDimensionOf b)
                           (10 / maxDimensionOf b),
             position := Vector3_scale (Vector3_Center (fst b) (snd b))
                           (- (10 / maxDimensionOf b))\<rparr>)
         (meshStore s) hasVertices))
      (s\<lparr>scene := Some (sc\<lparr>modelPivot := Some
         (p0\<lparr>scaling := Vector3 (10 / maxDimensionOf b) (10 / maxDimensionOf b)
                           (10 / maxDimensionOf b),
             position := Vector3_scale (Vector3_Center (fst b) (snd b))
                           (- (10 / maxDimensionOf b))\<rparr>)\<rparr>)\<rparr>)"
  using q s pos
  by (simp add: scaleAndFrame_def maxDimensionOf_def Let_def engineCall_quiet andThen_def
        withPivot_def withBounds_def ok_def)

lemma normalizationPass_empty:
  assumes "throwsAt env 138 = None" "camera s = Some cam"
  shows "normalizationPass env [] s =
    (None, s\<lparr>console := console s @ [Warn ''No renderable meshes found (0 vertices)''],
             camera := Some (cam\<lparr>target := Vector3_Zero, radius := 10\<rparr>)\<rparr>)"
  using assms
  by (simp add: normalizationPass_def engineCall_quiet andThen_def console_warn_def
        withCamera_def setTarget_def)

lemma normalizationPass_nonempty:
  assumes "throwsAt env 92 = None" "throwsAt env 93 = None" "throwsAt env 94 = None"
      "throwsAt env 95 = None" "scene s = Some sc" "rm \<noteq> []"
  shows "normalizationPass env rm s =
    scaleAndFrame env rm
      (getHierarchyBoundingVectors (new_TransformNode ''modelPivot'')
         (reparent rm (meshStore s)) hasVertices)
      (s\<lparr>scene := Some (sc\<lparr>modelPivot := Some (new_TransformNode ''modelPivot'')\<rparr>),
         meshStore := reparent rm (meshStore s)\<rparr>)"
  using assms
  by (simp add: normalizationPass_def engineCall_quiet andThen_def withScene_def
        forEach_setParent withBounds_def ok_def)

subsection \<open>Activation without exceptions\<close>

lemma subscribeResize_run:
  "throwsAt env 147 = None \<Longrightarrow> subscribeResize env s = (None, subscribed s)"
  by (simp add: subscribeResize_def engineCall_quiet andThen_def assign_def subscribed_def)

lemma onMount_try_run:
  assumes q: "quiet env engineLines"
    and l: "LoadAssetContainerAsync env modelUrl = Resolved (Some c)"
  shows "onMount_try env modelUrl s =
     andThen (normalizationPass env (renderMeshes c)) (subscribeResize env) (atPassEntry env c s)"
proof -
  note qs = q [unfolded quiet_def engineLines_def, simplified]
  show ?thesis
    using qs l
    by (cases s; cases "cameraDefaults env")
       (simp add: onMount_try_def loadModel_def setup_defs engineCall_quiet andThen_def
          assign_def withScene_def withCamera_def withEngine_def addAllToScene_def
          forEach_prepareMesh atPassEntry_def cameraAfterSetup_def sceneAfterSetup_def
          preparedStore_def)
qed

lemma onMount_run:
  assumes "canvasElement s \<noteq> None" "modelUrl \<noteq> []"
    and "LoadAssetContainerAsync env modelUrl = Resolved (Some c)"
    and "quiet env engineLines"
    and "normalizationPass env (renderMeshes c) (atPassEntry env c s) = (None, s1)"
  shows "onMount env modelUrl s = (None, subscribed s1)"
proof -
  have "throwsAt env 147 = None"
    using assms(4) by (simp add: quiet_def engineLines_def)
  then show ?thesis
    using assms
    by (simp add: onMount_def tryCatch_def onMount_try_run andThen_def subscribeResize_run)
qed

lemma scene_atPassEntry:
  "scene (atPassEntry env c s) =
     Some (sceneAfterSetup\<lparr>meshes := [0 ..< length (containerMeshes c)]\<rparr>)"
  by (simp add: atPassEntry_def)

lemma camera_atPassEntry: "camera (atPassEntry env c s) = Some (cameraAfterSetup env)"
  by (simp add: atPassEntry_def)

lemma meshStore_atPassEntry: "meshStore (atPassEntry env c s) = preparedStore c"
  by (simp add: atPassEntry_def)

lemma console_atPassEntry: "console (atPassEntry env c s) = console s"
  by (simp add: atPassEntry_def)

lemma pass_empty:
  assumes "quiet env engineLines" "renderMeshes c = []"
  shows "normalizationPass env (renderMeshes c) (atPassEntry env c s) =
    (None, (atPassEntry env c s)
       \<lparr>console := console s @ [Warn ''No renderable meshes found (0 vertices)''],
        camera := Some ((cameraAfterSetup env)\<lparr>target := Vector3_Zero, radius := 10\<rparr>)\<rparr>)"
proof -
  have "throwsAt env 138 = None"
    using assms(1) by (simp add: quiet_def engineLines_def)
  then show ?thesis
    using normalizationPass_empty [OF _ camera_atPassEntry]
    by (simp add: assms(2) console_atPassEntry)
qed

lemma pass_nonempty:
  assumes q: "quiet env engineLines" and ne: "renderMeshes c \<noteq> []"
  shows "normalizationPass env (renderMeshes c) (atPassEntry env c s) =
    scaleAndFrame env (renderMeshes c) (preScaleBounds c)
      (withPivotNode (new_TransformNode ''modelPivot'') (renderMeshes c) (atPassEntry env c s))"
proof -
  have qs: "throwsAt env 92 = None" "throwsAt env 93 = None" "throwsAt env 94 = None"
      "throwsAt env 95 = None"
    using q by (simp_all add: quiet_def engineLines_def)
  show ?thesis
    using normalizationPass_nonempty [OF qs scene_atPassEntry ne]
    by (simp add: withPivotNode_def scene_atPassEntry meshStore_atPassEntry preBounds_at_pass)
qed

lemma pass_zero:
  assumes q: "quiet env engineLines" and ne: "renderMeshes c \<noteq> []"
    and z: "\<not> 0 < maxDimensionOf (preScaleBounds c)"
  shows "normalizationPass env (renderMeshes c) (atPassEntry env c s) =
    (None, (withPivotNode (new_TransformNode ''modelPivot'') (renderMeshes c) (atPassEntry env c s))
       \<lparr>camera := Some ((cameraAfterSetup env)\<lparr>target := Vector3_Zero, radius := 10\<rparr>)\<rparr>)"
proof -
  have q133: "throwsAt env 133 = None"
    using q by (simp add: quiet_def engineLines_def)
  have cam: "camera (withPivotNode (new_TransformNode ''modelPivot'') (renderMeshes c)
      (atPassEntry env c s)) = Some (cameraAfterSetup env)"
    by (simp add: withPivotNode_def camera_atPassEntry)
  show ?thesis
    by (simp add: pass_nonempty [OF q ne] scaleAndFrame_zero [OF q133 cam z])
qed

lemma pass_scaled:
  assumes q: "quiet env engineLines" and ne: "renderMeshes c \<noteq> []"
    and pos: "0 < maxDimensionOf (preScaleBounds c)"
  shows "normalizationPass env (renderMeshes c) (atPassEntry env c s) =
    (None, (beforeZoom env c s)\<lparr>camera := Some
       (zoomed (zoomOnEngine env (beforeZoom env c s) (renderMeshes c) True)
          (aimed 10 (cameraAfterSetup env)))\<rparr>)"
proof -
  have qs: "throwsAt env 109 = None" "throwsAt env 111 = None" "throwsAt env 119 = None"
      "throwsAt env 130 = None"
    using q by (simp_all add: quiet_def engineLines_def)
  let ?e = "withPivotNode (new_TransformNode ''modelPivot'') (renderMeshes c) (atPassEntry env c s)"
  let ?sc = "sceneAfterSetup\<lparr>meshes := [0 ..< length (containerMeshes c)],
                modelPivot := Some (new_TransformNode ''modelPivot'')\<rparr>"
  have sc: "scene ?e = Some ?sc"
    by (simp add: withPivotNode_def scene_atPassEntry)
  have mp: "modelPivot ?sc = Some (new_TransformNode ''modelPivot'')"
    by simp
  have ms: "meshStore ?e = reparent (renderMeshes c) (preparedStore c)"
    by (simp add: withPivotNode_def meshStore_atPassEntry)
  have p: "(new_TransformNode ''modelPivot'')
      \<lparr>scaling := Vector3 (10 / maxDimensionOf (preScaleBounds c))
          (10 / maxDimensionOf (preScaleBounds c)) (10 / maxDimensionOf (preScaleBounds c)),
       position := Vector3_scale (Vector3_Center (fst (preScaleBounds c)) (snd (preScaleBounds c)))
          (- (10 / maxDimensionOf (preScaleBounds c)))\<rparr> = scaledPivot c"
    by (simp add: scaledPivot_def Let_def new_TransformNode_def)
  have s1: "?e\<lparr>scene := Some (sceneAfterSetup\<lparr>meshes := [0 ..< length (containerMeshes c)],
                modelPivot := Some (scaledPivot c)\<rparr>)\<rparr> =
      withPivotNode (scaledPivot c) (renderMeshes c) (atPassEntry env c s)"
    by (simp add: withPivotNode_def scene_atPassEntry)
  have "normalizationPass env (renderMeshes c) (atPassEntry env c s) =
      frameCamera env (renderMeshes c) 10
        (withPivotNode (scaledPivot c) (renderMeshes c) (atPassEntry env c s))"
    using scaleAndFrame_scaled [where rm = "renderMeshes c", OF qs(1,2) sc mp pos]
    by (simp add: pass_nonempty [OF q ne] p ms postMaxDimension_scaled [OF ne pos] s1)
  also have "\<dots> = (None, (beforeZoom env c s)\<lparr>camera := Some
       (zoomed (zoomOnEngine env (beforeZoom env c s) (renderMeshes c) True)
          (aimed 10 (cameraAfterSetup env)))\<rparr>)"
    using frameCamera_run [OF qs(3,4), of
        "withPivotNode (scaledPivot c) (renderMeshes c) (atPassEntry env c s)"
        "cameraAfterSetup env" "renderMeshes c" 10]
    by (simp add: withPivotNode_def camera_atPassEntry beforeZoom_def zoomed_def aimed_def
          nullable_def)
  finally show ?thesis .
qed

lemma onMount_empty:
  assumes "canvasElement s \<noteq> None" "modelUrl \<noteq> []"
    and "LoadAssetContainerAsync env modelUrl = Resolved (Some c)"
    and "quiet env engineLines"
    and "renderMeshes c = []"
  shows "onMount env modelUrl s =
    (None, subscribed ((atPassEntry env c s)
       \<lparr>console := console s @ [Warn ''No renderable meshes found (0 vertices)''],
        camera := Some ((cameraAfterSetup env)\<lparr>target := Vector3_Zero, radius := 10\<rparr>)\<rparr>))"
  by (rule onMount_run [OF assms(1-4) pass_empty [OF assms(4,5)]])

lemma onMount_zero:
  assumes "canvasElement s \<noteq> None" "modelUrl \<noteq> []"
    and "LoadAssetContainerAsync env modelUrl = Resolved (Some c)"
    and "quiet env engineLines"
    and "renderMeshes c \<noteq> []"
    and "\<not> 0 < maxDimensionOf (preScaleBounds c)"
  shows "onMount env modelUrl s =
    (None, subscribed
       ((withPivotNode (new_TransformNode ''modelPivot'') (renderMeshes c) (atPassEntry env c s))
          \<lparr>camera := Some ((cameraAfterSetup env)\<lparr>target := Vector3_Zero, radius := 10\<rparr>)\<rparr>))"
  by (rule onMount_run [OF assms(1-4) pass_zero [OF assms(4-6)]])

lemma onMount_scaled:
  assumes "canvasElement s \<noteq> None" "modelUrl \<noteq> []"
    and "LoadAssetContainerAsync env modelUrl = Resolved (Some c)"
    and "quiet env engineLines"
    and "renderMeshes c \<noteq> []"
    and "0 < maxDimensionOf (preScaleBounds c)"
  shows "onMount env modelUrl s =
    (None, subscribed ((beforeZoom env c s)\<lparr>camera := Some
       (zoomed (zoomOnEngine env (beforeZoom env c s) (renderMeshes c) True)
          (aimed 10 (cameraAfterSetup env)))\<rparr>))"
  by (rule onMount_run [OF assms(1-4) pass_scaled [OF assms(4-6)]])

lemma pivotOf_subscribed [simp]: "pivotOf (subscribed s) = pivotOf s"
  by (simp add: pivotOf_def subscribed_def)

lemma meshStore_subscribed [simp]: "meshStore (subscribed s) = meshStore s"
  by (simp add: subscribed_def)

lemma camera_subscribed [simp]: "camera (subscribed s) = camera s"
  by (simp add: subscribed_def)

lemma console_subscribed [simp]: "console (subscribed s) = console s"
  by (simp add: subscribed_def)

lemma hierarchyBounds_subscribed [simp]: "hierarchyBounds (subscribed s) = hierarchyBounds s"
  by (simp add: hierarchyBounds_def)

lemma pivotOf_camera_update [simp]: "pivotOf (s\<lparr>camera := x\<rparr>) = pivotOf s"
  by (simp add: pivotOf_def)

lemma pivotOf_console_update [simp]: "pivotOf (s\<lparr>console := x\<rparr>) = pivotOf s"
  by (simp add: pivotOf_def)

lemma pivotOf_atPassEntry: "pivotOf (atPassEntry env c s) = None"
  by (simp add: pivotOf_def scene_atPassEntry sceneAfterSetup_def)

lemma console_withPivotNode [simp]: "console (withPivotNode p rm s) = console s"
  by (simp add: withPivotNode_def)

lemma pivotOf_withPivotNode:
  "pivotOf (withPivotNode p rm (atPassEntry env c s)) = Some p"
  by (simp add: pivotOf_def withPivotNode_def scene_atPassEntry)

lemma hierarchyBounds_withPivotNode:
  "hierarchyBounds (withPivotNode p rm (atPassEntry env c s)) =
     Some (getHierarchyBoundingVectors p (reparent rm (preparedStore c)) hasVertices)"
proof -
  have m: "meshStore (withPivotNode p rm (atPassEntry env c s)) = reparent rm (preparedStore c)"
    by (simp add: withPivotNode_def meshStore_atPassEntry)
  show ?thesis
    unfolding hierarchyBounds_def pivotOf_withPivotNode m by simp
qed

lemma pivotOf_beforeZoom: "pivotOf (beforeZoom env c s) = Some (scaledPivot c)"
  by (simp add: pivotOf_def beforeZoom_def withPivotNode_def scene_atPassEntry)

lemma meshStore_beforeZoom:
  "meshStore (beforeZoom env c s) = reparent (renderMeshes c) (preparedStore c)"
  by (simp add: beforeZoom_def withPivotNode_def meshStore_atPassEntry)

lemma hierarchyBounds_camera_update [simp]:
  "hierarchyBounds (s\<lparr>camera := x\<rparr>) = hierarchyBounds s"
  by (simp add: hierarchyBounds_def)

lemma hierarchyBounds_beforeZoom:
  "hierarchyBounds (beforeZoom env c s) =
     Some (getHierarchyBoundingVectors (scaledPivot c)
             (reparent (renderMeshes c) (preparedStore c)) hasVertices)"
  by (simp add: hierarchyBounds_def pivotOf_beforeZoom meshStore_beforeZoom)

lemma onMount_meshStore:
  assumes "canvasElement s \<noteq> None" "modelUrl \<noteq> []"
    and "LoadAssetContainerAsync env modelUrl = Resolved (Some c)"
    and "quiet env engineLines"
  shows "map unparent (meshStore (snd (onMount env modelUrl s))) = map unparent (preparedStore c)"
proof (cases "renderMeshes c = []")
  case True
  show ?thesis
    by (simp add: onMount_empty [OF assms True] meshStore_atPassEntry)
next
  case ne: False
  show ?thesis
  proof (cases "0 < maxDimensionOf (preScaleBounds c)")
    case True
    show ?thesis
      by (simp add: onMount_scaled [OF assms ne True] meshStore_beforeZoom map_unparent_reparent)
  next
    case False
    show ?thesis
      by (simp add: onMount_zero [OF assms ne False] withPivotNode_def meshStore_atPassEntry
            map_unparent_reparent)
  qed
qed

subsection \<open>The concrete environments\<close>

lemma bound_canvas: "canvasElement boundSession \<noteq> None"
  by (simp add: boundSession_def initialSession_def)

lemma example_quiet:
  "quiet exampleEnv engineLines" "quiet pointEnv engineLines" "quiet emptyEnv engineLines"
  by (simp_all add: quiet_def engineLines_def exampleEnv_def pointEnv_def emptyEnv_def)

lemma example_load:
  "LoadAssetContainerAsync exampleEnv url = Resolved (Some exampleContainer)"
  "LoadAssetContainerAsync pointEnv url = Resolved (Some pointContainer)"
  "LoadAssetContainerAsync emptyEnv url = Resolved (Some emptyContainer)"
  by (simp_all add: exampleEnv_def pointEnv_def emptyEnv_def)

lemma example_renderMeshes:
  "renderMeshes exampleContainer \<noteq> []" "renderMeshes pointContainer \<noteq> []"
  "renderMeshes emptyContainer = []"
  by (simp_all add: renderMeshes_def hasVertices_def getTotalVertices_def exampleContainer_def
        pointContainer_def emptyContainer_def exampleMesh_def)

lemma example_preScaleBounds:
  "preScaleBounds exampleContainer = (Vector3 0 0 0, Vector3 2 4 2)"
  "preScaleBounds pointContainer = (Vector3 1 2 3, Vector3 1 2 3)"
  by (simp_all add: preScaleBounds_def getHierarchyBoundingVectors_def hierarchyPoints_def
        hasVertices_def getTotalVertices_def setParent_def minimize_def maximize_def
        exampleContainer_def pointContainer_def exampleMesh_def)

lemma example_maxDimension:
  "maxDimensionOf (preScaleBounds exampleContainer) = 4"
  "maxDimensionOf (preScaleBounds pointContainer) = 0"
  by (simp_all add: example_preScaleBounds maxDimensionOf_def Vector3_subtract_def Math_max3_def)

section \<open>Properties of the normalization pass\<close>

text \<open>
  The properties below are about an activation in which no engine call throws and the load
  resolves to a container \<open>c\<close>. The pre-scale bounding box is \<open>preScaleBounds c\<close>; the
  post-scale bounding box is the one the engine measures in the session that activation
  leaves.
\<close>

subsection \<open>Scale to fit\<close>

text \<open>
  C1. For a container with at least one mesh with vertices, whose pre-scale bounding box
  has a max dimension above 0, the pass sets the pivot's scaling to 10 / maxDimension on
  every axis, and the post-scale bounding box of the pivot's hierarchy has max dimension
  exactly 10.
\<close>

theorem normalization_scales_to_ten:
  assumes "canvasElement s \<noteq> None" "modelUrl \<noteq> []"
    and "LoadAssetContainerAsync env modelUrl = Resolved (Some c)"
    and "quiet env engineLines"
    and "renderMeshes c \<noteq> []"
    and "0 < maxDimensionOf (preScaleBounds c)"
  shows "fst (onMount env modelUrl s) = None \<and>
    map_option scaling (pivotOf (snd (onMount env modelUrl s))) =
      Some (Vector3 (10 / maxDimensionOf (preScaleBounds c))
                    (10 / maxDimensionOf (preScaleBounds c))
                    (10 / maxDimensionOf (preScaleBounds c))) \<and>
    map_option maxDimensionOf (hierarchyBounds (snd (onMount env modelUrl s))) = Some 10"
  by (simp add: onMount_scaled [OF assms] pivotOf_beforeZoom scaledPivot_scaling
        hierarchyBounds_beforeZoom postMaxDimension_scaled [OF assms(5,6)])

theorem normalization_scales_to_ten_witness:
  "canvasElement boundSession \<noteq> None \<and> ''model.obj'' \<noteq> [] \<and>
   LoadAssetContainerAsync exampleEnv ''model.obj'' = Resolved (Some exampleContainer) \<and>
   quiet exampleEnv engineLines \<and> renderMeshes exampleContainer \<noteq> [] \<and>
   0 < maxDimensionOf (preScaleBounds exampleContainer) \<and>
   map_option scaling (pivotOf (snd (onMount exampleEnv ''model.obj'' boundSession))) =
     Some (Vector3 2.5 2.5 2.5) \<and>
   map_option maxDimensionOf (hierarchyBounds (snd (onMount exampleEnv ''model.obj'' boundSession))) =
     Some 10"
proof -
  have n: "''model.obj'' \<noteq> []" by simp
  have p: "0 < maxDimensionOf (preScaleBounds exampleContainer)"
    by (simp add: example_maxDimension)
  show ?thesis
    using normalization_scales_to_ten
      [OF bound_canvas n example_load(1) example_quiet(1) example_renderMeshes(1) p]
    by (simp add: bound_canvas example_load example_quiet example_renderMeshes
          example_maxDimension)
qed

subsection \<open>Re-centring\<close>

text \<open>
  C2, as amended. For a container with at least one mesh with vertices: if the pre-scale
  bounding box has a max dimension above 0, the pass sets the pivot's position to
  -(centre * scale), and the post-scale bounding box of the pivot's hierarchy is centred
  at the world origin; if it has not (the max dimension is 0), the pivot is left where the
  constructor put it, at the origin, and the bounding box of its hierarchy keeps the
  centre of the pre-scale box.
\<close>

theorem normalization_recentres:
  assumes "canvasElement s \<noteq> None" "modelUrl \<noteq> []"
    and "LoadAssetContainerAsync env modelUrl = Resolved (Some c)"
    and "quiet env engineLines"
    and "renderMeshes c \<noteq> []"
  shows "(0 < maxDimensionOf (preScaleBounds c) \<longrightarrow>
      map_option position (pivotOf (snd (onMount env modelUrl s))) =
        Some (Vector3_scale (centerOf (preScaleBounds c))
                (- (10 / maxDimensionOf (preScaleBounds c)))) \<and>
      map_option centerOf (hierarchyBounds (snd (onMount env modelUrl s))) =
        Some Vector3_Zero) \<and>
    (\<not> 0 < maxDimensionOf (preScaleBounds c) \<longrightarrow>
      map_option position (pivotOf (snd (onMount env modelUrl s))) = Some Vector3_Zero \<and>
      map_option centerOf (hierarchyBounds (snd (onMount env modelUrl s))) =
        Some (centerOf (preScaleBounds c)))"
proof (cases "0 < maxDimensionOf (preScaleBounds c)")
  case True
  show ?thesis
    by (simp add: True onMount_scaled [OF assms True] pivotOf_beforeZoom scaledPivot_position
          hierarchyBounds_beforeZoom centerOf_def [symmetric]
          postCenter_scaled [OF assms(5) True])
next
  case False
  show ?thesis
    by (simp add: False onMount_zero [OF assms False] pivotOf_withPivotNode
          hierarchyBounds_withPivotNode preBounds_at_pass)
qed

theorem normalization_recentres_witness:
  "canvasElement boundSession \<noteq> None \<and> ''model.obj'' \<noteq> [] \<and>
   LoadAssetContainerAsync exampleEnv ''model.obj'' = Resolved (Some exampleContainer) \<and>
   quiet exampleEnv engineLines \<and> renderMeshes exampleContainer \<noteq> [] \<and>
   0 < maxDimensionOf (preScaleBounds exampleContainer) \<and>
   map_option position (pivotOf (snd (onMount exampleEnv ''model.obj'' boundSession))) =
     Some (Vector3 (- 2.5) (- 5) (- 2.5)) \<and>
   map_option centerOf (hierarchyBounds (snd (onMount exampleEnv ''model.obj'' boundSession))) =
     Some (Vector3 0 0 0) \<and>
   LoadAssetContainerAsync pointEnv ''point.obj'' = Resolved (Some pointContainer) \<and>
   quiet pointEnv engineLines \<and> renderMeshes pointContainer \<noteq> [] \<and>
   \<not> 0 < maxDimensionOf (preScaleBounds pointContainer) \<and>
   map_option position (pivotOf (snd (onMount pointEnv ''point.obj'' boundSession))) =
     Some (Vector3 0 0 0) \<and>
   map_option centerOf (hierarchyBounds (snd (onMount pointEnv ''point.obj'' boundSession))) =
     Some (Vector3 1 2 3)"
proof -
  have n: "''model.obj'' \<noteq> []" "''point.obj'' \<noteq> []" by simp_all
  have p: "0 < maxDimensionOf (preScaleBounds exampleContainer)"
    by (simp add: example_maxDimension)
  have z: "\<not> 0 < maxDimensionOf (preScaleBounds pointContainer)"
    by (simp add: example_maxDimension)
  have v: "Vector3_scale (centerOf (preScaleBounds exampleContainer))
      (- (10 / maxDimensionOf (preScaleBounds exampleContainer))) = Vector3 (- 2.5) (- 5) (- 2.5)"
    unfolding example_maxDimension
    by (simp add: example_preScaleBounds centerOf_def Vector3_Center_def Vector3_scale_def)
  have w: "centerOf (preScaleBounds pointContainer) = Vector3 1 2 3"
    by (simp add: example_preScaleBounds centerOf_def Vector3_Center_def)
  note t = normalization_recentres
    [OF bound_canvas n(1) example_load(1) example_quiet(1) example_renderMeshes(1)]
  note u = normalization_recentres
    [OF bound_canvas n(2) example_load(2) example_quiet(2) example_renderMeshes(2)]
  from t p have c1:
    "map_option position (pivotOf (snd (onMount exampleEnv ''model.obj'' boundSession))) =
       Some (Vector3 (- 2.5) (- 5) (- 2.5))"
    unfolding v by blast
  from t p have c2:
    "map_option centerOf (hierarchyBounds (snd (onMount exampleEnv ''model.obj'' boundSession))) =
       Some (Vector3 0 0 0)"
    unfolding Vector3_Zero_def by blast
  from u z have c3:
    "map_option position (pivotOf (snd (onMount pointEnv ''point.obj'' boundSession))) =
       Some (Vector3 0 0 0)"
    unfolding Vector3_Zero_def by blast
  from u z have c4:
    "map_option centerOf (hierarchyBounds (snd (onMount pointEnv ''point.obj'' boundSession))) =
       Some (Vector3 1 2 3)"
    unfolding w by blast
  from bound_canvas n(1) example_load(1,2) example_quiet(1,2) example_renderMeshes(1,2)
    p z c1 c2 c3 c4
  show ?thesis by blast
qed

text \<open>
  The claim as stated, for any renderable mesh set, fails for a mesh whose vertices all
  lie at (1,2,3): the guard of line 103 skips the re-centring, the pivot stays at the
  origin, and the bounding box of its hierarchy stays centred at (1,2,3).
\<close>

theorem recentring_counterexample:
  "fst (onMount pointEnv ''point.obj'' boundSession) = None \<and>
   map_option position (pivotOf (snd (onMount pointEnv ''point.obj'' boundSession))) =
     Some (Vector3 0 0 0) \<and>
   map_option centerOf (hierarchyBounds (snd (onMount pointEnv ''point.obj'' boundSession))) =
     Some (Vector3 1 2 3) \<and>
   Vector3 1 2 3 \<noteq> Vector3_Zero"
  by (simp add: onMount_def onMount_try_def action_defs setup_defs pass_defs example_defs
        pivotOf_def hierarchyBounds_def centerOf_def Let_def)

subsection \<open>The camera's distance\<close>



subsection \<open>The camera's limits and clip planes\<close>

text \<open>
  C4. Whatever branch the pass takes (scaled, zero max dimension, or empty set), the
  camera ends with both distance limits set, the lower not above the upper, and with the
  far clip plane not below the near one. In the scaled branch the component assigns all
  four values; in the other two branches the limits are those of lines 56 and 57 and the
  clip planes are those of the engine's camera constructor, which are taken to be ordered.
\<close>

theorem camera_limits_ordered:
  assumes "canvasElement s \<noteq> None" "modelUrl \<noteq> []"
    and "LoadAssetContainerAsync env modelUrl = Resolved (Some c)"
    and "quiet env engineLines"
    and "minZ (cameraDefaults env) \<le> maxZ (cameraDefaults env)"
  shows "fst (onMount env modelUrl s) = None \<and>
    map_option limitsOrdered (camera (snd (onMount env modelUrl s))) = Some True"
proof (cases "renderMeshes c = []")
  case True
  show ?thesis
    using assms(5)
    by (simp add: onMount_empty [OF assms(1-4) True] limitsOrdered_def cameraAfterSetup_def)
next
  case ne: False
  show ?thesis
  proof (cases "0 < maxDimensionOf (preScaleBounds c)")
    case True
    show ?thesis
      by (simp add: onMount_scaled [OF assms(1-4) ne True] limitsOrdered_def zoomed_def
            aimed_def nullable_def)
  next
    case False
    show ?thesis
      using assms(5)
      by (simp add: onMount_zero [OF assms(1-4) ne False] limitsOrdered_def cameraAfterSetup_def)
  qed
qed

theorem camera_limits_ordered_witness:
  "canvasElement boundSession \<noteq> None \<and> ''model.obj'' \<noteq> [] \<and>
   quiet exampleEnv engineLines \<and> quiet pointEnv engineLines \<and> quiet emptyEnv engineLines \<and>
   minZ (cameraDefaults exampleEnv) \<le> maxZ (cameraDefaults exampleEnv) \<and>
   map_option limitsOrdered (camera (snd (onMount exampleEnv ''model.obj'' boundSession))) =
     Some True \<and>
   map_option limitsOrdered (camera (snd (onMount pointEnv ''model.obj'' boundSession))) =
     Some True \<and>
   map_option limitsOrdered (camera (snd (onMount emptyEnv ''model.obj'' boundSession))) =
     Some True"
proof -
  have n: "''model.obj'' \<noteq> []" by simp
  have z: "minZ (cameraDefaults exampleEnv) \<le> maxZ (cameraDefaults exampleEnv)"
    "minZ (cameraDefaults pointEnv) \<le> maxZ (cameraDefaults pointEnv)"
    "minZ (cameraDefaults emptyEnv) \<le> maxZ (cameraDefaults emptyEnv)"
    by (simp_all add: exampleEnv_def pointEnv_def emptyEnv_def exampleCameraDefaults_def)
  show ?thesis
    using camera_limits_ordered [OF bound_canvas n example_load(1) example_quiet(1) z(1)]
      camera_limits_ordered [OF bound_canvas n example_load(2) example_quiet(2) z(2)]
      camera_limits_ordered [OF bound_canvas n example_load(3) example_quiet(3) z(3)]
      bound_canvas example_quiet z(1)
    by simp
qed

subsection \<open>The empty set\<close>

text \<open>
  Within an activation, an empty set of meshes with vertices leaves the warning in the
  console, the camera at the origin from distance 10 and the scene without a pivot.
\<close>

lemma onMount_empty_outcome:
  assumes "canvasElement s \<noteq> None" "modelUrl \<noteq> []"
    and "LoadAssetContainerAsync env modelUrl = Resolved (Some c)"
    and "quiet env engineLines"
    and "renderMeshes c = []"
  shows "fst (onMount env modelUrl s) = None \<and>
    console (snd (onMount env modelUrl s)) =
      console s @ [Warn ''No renderable meshes found (0 vertices)''] \<and>
    map_option target (camera (snd (onMount env modelUrl s))) = Some Vector3_Zero \<and>
    map_option radius (camera (snd (onMount env modelUrl s))) = Some 10 \<and>
    pivotOf (snd (onMount env modelUrl s)) = None"
  by (simp add: onMount_empty [OF assms] pivotOf_atPassEntry)

text \<open>
  C5. If no mesh of the container has vertices, the pass, entered with any camera
  whatever, logs the warning, sets that camera's target to the origin and its radius to
  10, and does nothing else: the scene is as it was, so no pivot is created and nothing is
  scaled.
\<close>

theorem empty_set_fallback:
  assumes "renderMeshes c = []"
    and "throwsAt env 138 = None"
    and "camera s = Some cam"
  shows "normalizationPass env (renderMeshes c) s =
    (None, s\<lparr>console := console s @ [Warn ''No renderable meshes found (0 vertices)''],
             camera := Some (cam\<lparr>target := Vector3_Zero, radius := 10\<rparr>)\<rparr>)"
  using normalizationPass_empty [OF assms(2,3)] by (simp add: assms(1))

theorem empty_set_fallback_witness:
  "renderMeshes emptyContainer = [] \<and> throwsAt emptyEnv 138 = None \<and>
   map_option target (camera (passSession emptyContainer)) = Some (Vector3 7 8 9) \<and>
   map_option radius (camera (passSession emptyContainer)) = Some 99 \<and>
   fst (normalizationPass emptyEnv (renderMeshes emptyContainer) (passSession emptyContainer)) =
     None \<and>
   console (snd (normalizationPass emptyEnv (renderMeshes emptyContainer)
      (passSession emptyContainer))) = [Warn ''No renderable meshes found (0 vertices)''] \<and>
   map_option target (camera (snd (normalizationPass emptyEnv (renderMeshes emptyContainer)
      (passSession emptyContainer)))) = Some (Vector3 0 0 0) \<and>
   map_option radius (camera (snd (normalizationPass emptyEnv (renderMeshes emptyContainer)
      (passSession emptyContainer)))) = Some 10 \<and>
   pivotOf (snd (normalizationPass emptyEnv (renderMeshes emptyContainer)
      (passSession emptyContainer))) = None"
proof -
  have q: "throwsAt emptyEnv 138 = None"
    by (simp add: emptyEnv_def exampleEnv_def)
  have c: "camera (passSession emptyContainer) = Some strayCamera"
    by (simp add: passSession_def)
  let ?r = "normalizationPass emptyEnv (renderMeshes emptyContainer) (passSession emptyContainer)"
  note t = empty_set_fallback [OF example_renderMeshes(3) q c]
  have g1: "map_option target (camera (passSession emptyContainer)) = Some (Vector3 7 8 9)"
    by (simp add: c strayCamera_def)
  have g2: "map_option radius (camera (passSession emptyContainer)) = Some 99"
    by (simp add: c strayCamera_def)
  have f1: "fst ?r = None"
    by (simp add: t)
  have k: "console (passSession emptyContainer) = []"
    by (simp add: passSession_def boundSession_def initialSession_def)
  have f2: "console (snd ?r) = [Warn ''No renderable meshes found (0 vertices)'']"
    by (simp add: t k)
  have f3: "map_option target (camera (snd ?r)) = Some (Vector3 0 0 0)"
    by (simp add: t Vector3_Zero_def)
  have f4: "map_option radius (camera (snd ?r)) = Some 10"
    by (simp add: t)
  have sc: "scene (passSession emptyContainer) = Some new_Scene"
    by (simp add: passSession_def)
  have f5: "pivotOf (snd ?r) = None"
    by (simp add: t pivotOf_def sc new_Scene_def)
  from example_renderMeshes(3) q g1 g2 f1 f2 f3 f4 f5
  show ?thesis by blast
qed

subsection \<open>Coincident points\<close>

text \<open>
  Within an activation, a set of meshes with vertices whose pre-scale bounding box has max
  dimension 0 leaves the pivot as the constructor made it and the camera at the origin
  from distance 10.
\<close>

lemma onMount_zero_outcome:
  assumes "canvasElement s \<noteq> None" "modelUrl \<noteq> []"
    and "LoadAssetContainerAsync env modelUrl = Resolved (Some c)"
    and "quiet env engineLines"
    and "renderMeshes c \<noteq> []"
    and "maxDimensionOf (preScaleBounds c) = 0"
  shows "fst (onMount env modelUrl s) = None \<and>
    pivotOf (snd (onMount env modelUrl s)) = Some (new_TransformNode ''modelPivot'') \<and>
    map_option scaling (pivotOf (snd (onMount env modelUrl s))) = Some (Vector3 1 1 1) \<and>
    map_option target (camera (snd (onMount env modelUrl s))) = Some Vector3_Zero \<and>
    map_option radius (camera (snd (onMount env modelUrl s))) = Some 10 \<and>
    console (snd (onMount env modelUrl s)) = console s"
proof -
  have z: "\<not> 0 < maxDimensionOf (preScaleBounds c)"
    using assms(6) by simp
  show ?thesis
    by (simp add: onMount_zero [OF assms(1-5) z] pivotOf_withPivotNode console_atPassEntry)
qed

text \<open>
  C6. Let the pass be entered with at least one mesh with vertices, in a session with a
  scene and any camera whatever, and let the bounding box that line 95 measures (of the
  re-parented meshes under the new pivot) have max dimension 0. Then nothing is thrown,
  the scaling step is skipped (the quotient 10 / maxDimension is not computed, and the
  pivot in the scene is the new node as constructed, with scaling 1 on every axis), the
  meshes are re-parented, and the camera's target is set to the origin and its radius to
  10. Nothing else changes; in particular nothing is logged.
\<close>

theorem zero_dimension_skips_scaling:
  assumes "quiet env [92, 93, 94, 95, 133]"
    and "renderMeshes c \<noteq> []"
    and "scene s = Some sc"
    and "camera s = Some cam"
    and "maxDimensionOf (getHierarchyBoundingVectors (new_TransformNode ''modelPivot'')
           (reparent (renderMeshes c) (meshStore s)) hasVertices) = 0"
  shows "normalizationPass env (renderMeshes c) s =
    (None, s\<lparr>scene := Some (sc\<lparr>modelPivot := Some (new_TransformNode ''modelPivot'')\<rparr>),
             meshStore := reparent (renderMeshes c) (meshStore s),
             camera := Some (cam\<lparr>target := Vector3_Zero, radius := 10\<rparr>)\<rparr>) \<and>
    scaling (new_TransformNode ''modelPivot'') = Vector3 1 1 1"
proof -
  have qs: "throwsAt env 92 = None" "throwsAt env 93 = None" "throwsAt env 94 = None"
      "throwsAt env 95 = None" "throwsAt env 133 = None"
    using assms(1) by (simp_all add: quiet_def)
  let ?s1 = "s\<lparr>scene := Some (sc\<lparr>modelPivot := Some (new_TransformNode ''modelPivot'')\<rparr>),
               meshStore := reparent (renderMeshes c) (meshStore s)\<rparr>"
  have cam: "camera ?s1 = Some cam"
    using assms(4) by simp
  have z: "\<not> 0 < maxDimensionOf (getHierarchyBoundingVectors (new_TransformNode ''modelPivot'')
      (reparent (renderMeshes c) (meshStore s)) hasVertices)"
    using assms(5) by simp
  show ?thesis
    using normalizationPass_nonempty [OF qs(1-4) assms(3) assms(2)]
      scaleAndFrame_zero [OF qs(5) cam z]
    by simp
qed

theorem zero_dimension_skips_scaling_witness:
  "quiet pointEnv [92, 93, 94, 95, 133] \<and> renderMeshes pointContainer \<noteq> [] \<and>
   scene (passSession pointContainer) = Some new_Scene \<and>
   maxDimensionOf (getHierarchyBoundingVectors (new_TransformNode ''modelPivot'')
     (reparent (renderMeshes pointContainer) (meshStore (passSession pointContainer)))
     hasVertices) = 0 \<and>
   map_option target (camera (passSession pointContainer)) = Some (Vector3 7 8 9) \<and>
   map_option radius (camera (passSession pointContainer)) = Some 99 \<and>
   fst (normalizationPass pointEnv (renderMeshes pointContainer) (passSession pointContainer)) =
     None \<and>
   map_option scaling (pivotOf (snd (normalizationPass pointEnv (renderMeshes pointContainer)
      (passSession pointContainer)))) = Some (Vector3 1 1 1) \<and>
   map_option target (camera (snd (normalizationPass pointEnv (renderMeshes pointContainer)
      (passSession pointContainer)))) = Some (Vector3 0 0 0) \<and>
   map_option radius (camera (snd (normalizationPass pointEnv (renderMeshes pointContainer)
      (passSession pointContainer)))) = Some 10 \<and>
   console (snd (normalizationPass pointEnv (renderMeshes pointContainer)
      (passSession pointContainer))) = []"
proof -
  have q: "quiet pointEnv [92, 93, 94, 95, 133]"
    by (simp add: quiet_def pointEnv_def exampleEnv_def)
  have sc: "scene (passSession pointContainer) = Some new_Scene"
    by (simp add: passSession_def)
  have c: "camera (passSession pointContainer) = Some strayCamera"
    by (simp add: passSession_def)
  have r: "renderMeshes pointContainer = [0]"
    by (simp add: renderMeshes_def hasVertices_def getTotalVertices_def pointContainer_def
          exampleMesh_def)
  have m: "maxDimensionOf (getHierarchyBoundingVectors (new_TransformNode ''modelPivot'')
     (reparent (renderMeshes pointContainer) (meshStore (passSession pointContainer)))
     hasVertices) = 0"
    unfolding r
    by (simp add: reparent_def passSession_def pointContainer_def exampleMesh_def
          getHierarchyBoundingVectors_def hierarchyPoints_def hasVertices_def
          getTotalVertices_def setParent_def minimize_def maximize_def maxDimensionOf_def
          Vector3_subtract_def Math_max3_def)
  let ?r = "normalizationPass pointEnv (renderMeshes pointContainer) (passSession pointContainer)"
  note t = zero_dimension_skips_scaling [OF q example_renderMeshes(2) sc c m, THEN conjunct1]
  have g1: "map_option target (camera (passSession pointContainer)) = Some (Vector3 7 8 9)"
    by (simp add: c strayCamera_def)
  have g2: "map_option radius (camera (passSession pointContainer)) = Some 99"
    by (simp add: c strayCamera_def)
  have f1: "fst ?r = None"
    by (simp add: t)
  have f2: "map_option scaling (pivotOf (snd ?r)) = Some (Vector3 1 1 1)"
    by (simp add: t pivotOf_def)
  have f3: "map_option target (camera (snd ?r)) = Some (Vector3 0 0 0)"
    by (simp add: t Vector3_Zero_def)
  have f4: "map_option radius (camera (snd ?r)) = Some 10"
    by (simp add: t)
  have k: "console (passSession pointContainer) = []"
    by (simp add: passSession_def boundSession_def initialSession_def)
  have f5: "console (snd ?r) = []"
    by (simp add: t k)
  from q example_renderMeshes(2) sc m g1 g2 f1 f2 f3 f4 f5
  show ?thesis by blast
qed

section \<open>Properties of the mesh set-up\<close>

text \<open>
  C7. After an activation in which no engine call throws and the load resolves to a
  container, the session holds one mesh object for each mesh of the container. Each of
  them, whatever its vertex count, is enabled and visible. One that came without a
  material has the default material: named by its index, diffuse colour (0.8, 0.8, 0.8),
  opaque. One that came with a material still has that material.
\<close>

theorem meshes_shown_with_material:
  assumes "canvasElement s \<noteq> None" "modelUrl \<noteq> []"
    and "LoadAssetContainerAsync env modelUrl = Resolved (Some c)"
    and "quiet env engineLines"
    and "i < length (containerMeshes c)"
  shows "length (meshStore (snd (onMount env modelUrl s))) = length (containerMeshes c) \<and>
    enabled (meshStore (snd (onMount env modelUrl s)) ! i) \<and>
    isVisible (meshStore (snd (onMount env modelUrl s)) ! i) \<and>
    material (meshStore (snd (onMount env modelUrl s)) ! i) =
      (case material (containerMeshes c ! i) of
         None \<Rightarrow> Some \<lparr>materialName = ''defaultMat_'' @ digits i,
                         diffuseColor = Color3 0.8 0.8 0.8, materialAlpha = 1\<rparr>
       | Some mat \<Rightarrow> Some mat)"
proof -
  let ?ms = "meshStore (snd (onMount env modelUrl s))"
  have eq: "map unparent ?ms = map unparent (preparedStore c)"
    by (rule onMount_meshStore [OF assms(1-4)])
  then have len: "length ?ms = length (containerMeshes c)"
    using length_map [of unparent ?ms] by simp
  have "unparent (?ms ! i) = unparent (preparedStore c ! i)"
    using eq len assms(5) by (metis length_preparedStore nth_map)
  then have u: "unparent (?ms ! i) = unparent (prepared i (containerMeshes c ! i))"
    by (simp add: nth_preparedStore assms(5))
  have e: "enabled (?ms ! i) = enabled (prepared i (containerMeshes c ! i))"
    using arg_cong [OF u, of enabled] by (simp add: unparent_def)
  have v: "isVisible (?ms ! i) = isVisible (prepared i (containerMeshes c ! i))"
    using arg_cong [OF u, of isVisible] by (simp add: unparent_def)
  have m: "material (?ms ! i) = material (prepared i (containerMeshes c ! i))"
    using arg_cong [OF u, of material] by (simp add: unparent_def)
  show ?thesis
    by (simp add: len e v m prepared_def split: option.splits)
qed

theorem meshes_shown_with_material_witness:
  "canvasElement boundSession \<noteq> None \<and> ''model.obj'' \<noteq> [] \<and>
   LoadAssetContainerAsync exampleEnv ''model.obj'' = Resolved (Some exampleContainer) \<and>
   quiet exampleEnv engineLines \<and> (0::nat) < length (containerMeshes exampleContainer) \<and>
   material (containerMeshes exampleContainer ! 0) = None \<and>
   length (meshStore (snd (onMount exampleEnv ''model.obj'' boundSession))) = 1 \<and>
   enabled (meshStore (snd (onMount exampleEnv ''model.obj'' boundSession)) ! 0) \<and>
   isVisible (meshStore (snd (onMount exampleEnv ''model.obj'' boundSession)) ! 0) \<and>
   material (meshStore (snd (onMount exampleEnv ''model.obj'' boundSession)) ! 0) =
     Some \<lparr>materialName = ''defaultMat_0'', diffuseColor = Color3 0.8 0.8 0.8,
            materialAlpha = 1\<rparr>"
proof -
  have n: "''model.obj'' \<noteq> []" by simp
  have l: "(0::nat) < length (containerMeshes exampleContainer)"
    by (simp add: exampleContainer_def)
  have d: "digits 0 = ''0''"
    by (simp add: digits.simps digit_def)
  show ?thesis
    using meshes_shown_with_material
      [OF bound_canvas n example_load(1) example_quiet(1) l]
    by (simp add: bound_canvas example_load example_quiet exampleContainer_def exampleMesh_def d)
qed

section \<open>Properties of the lifecycle\<close>

subsection \<open>The early return\<close>

text \<open>
  C10. If the resource locator is the empty string, or the render surface is not bound,
  activation returns before the guarded body: it completes without an exception and
  leaves the session exactly as it was, so no engine, scene, camera, light or
  subscription is created and nothing is logged.
\<close>

theorem onMount_early_return:
  "canvasElement s = None \<or> modelUrl = [] \<Longrightarrow> onMount env modelUrl s = (None, s)"
  by (simp add: onMount_def ok_def)

theorem onMount_early_return_witness:
  "onMount exampleEnv [] boundSession = (None, boundSession) \<and>
   onMount exampleEnv ''model.obj'' initialSession = (None, initialSession) \<and>
   engine boundSession = None \<and> scene boundSession = None \<and>
   camera boundSession = None \<and> handleResize boundSession = None \<and>
   console boundSession = []"
  using onMount_early_return [of boundSession "[]" exampleEnv]
    onMount_early_return [of initialSession "''model.obj''" exampleEnv]
  by (simp add: boundSession_def initialSession_def)

subsection \<open>The outer handler\<close>

text \<open>
  C9. Activation never hands an exception to its caller, whatever the engine, the loader
  and the host do. Where the guarded body (lines 38 to 147) raises an exception, the
  session is left in the state the body had reached, with one more console entry: the
  error, logged.
\<close>

theorem onMount_never_propagates:
  "fst (onMount env modelUrl s) = None \<and>
   (canvasElement s \<noteq> None \<and> modelUrl \<noteq> [] \<longrightarrow>
     snd (onMount env modelUrl s) =
       (case onMount_try env modelUrl s of
          (None, s') \<Rightarrow> s'
        | (Some e, s') \<Rightarrow> s'\<lparr>console := console s' @ [Error ''Error loading model:'' e]\<rparr>))"
  by (simp add: onMount_def ok_def tryCatch_def console_error_def
        split: prod.splits option.splits)

theorem onMount_never_propagates_witness:
  "canvasElement boundSession \<noteq> None \<and> ''model.glb'' \<noteq> [] \<and>
   fst (onMount_try failingLoadEnv ''model.glb'' boundSession) = Some (Exn ''404'') \<and>
   fst (onMount failingLoadEnv ''model.glb'' boundSession) = None \<and>
   console (snd (onMount failingLoadEnv ''model.glb'' boundSession)) =
     [Error ''Error loading model:'' (Exn ''404'')] \<and>
   engine (snd (onMount failingLoadEnv ''model.glb'' boundSession)) \<noteq> None \<and>
   map_option meshes (scene (snd (onMount failingLoadEnv ''model.glb'' boundSession))) = Some [] \<and>
   handleResize (snd (onMount failingLoadEnv ''model.glb'' boundSession)) = None \<and>
   fst (onMount_try failingEngineEnv ''model.glb'' boundSession) =
     Some (Exn ''WebGL not supported'') \<and>
   onMount failingEngineEnv ''model.glb'' boundSession =
     (None, boundSession\<lparr>console :=
        [Error ''Error loading model:'' (Exn ''WebGL not supported'')]\<rparr>)"
  using onMount_never_propagates [of failingLoadEnv "''model.glb''" boundSession]
    onMount_never_propagates [of failingEngineEnv "''model.glb''" boundSession]
  by (simp add: onMount_def onMount_try_def loadModel_def action_defs setup_defs example_defs)

subsection \<open>Deactivation\<close>

text \<open>
  C8. Deactivation never raises, whatever handles are absent: each of the four releases
  (resize listener, camera control, engine, scene) happens exactly if its own handle is
  present, independently of the other three. In particular it leaves a session without
  any handle as it is.
\<close>

theorem onDestroy_never_raises:
  "onDestroy s =
     (None, s\<lparr>resizeListeners :=
                 (if handleResize s \<noteq> None then resizeListeners s - 1 else resizeListeners s),
              camera := map_option detachControl (camera s),
              engine := map_option (\<lambda>e. e\<lparr>engineDisposed := True, renderLoopRunning := False\<rparr>)
                          (engine s),
              scene := map_option (\<lambda>sc. sc\<lparr>sceneDisposed := True\<rparr>) (scene s)\<rparr>)"
  by (cases "camera s"; cases "engine s"; cases "scene s")
     (simp_all add: onDestroy_def andThen_def ok_def assign_def withCamera_def withEngine_def
        withScene_def)

theorem onDestroy_never_raises_witness:
  "onDestroy initialSession = (None, initialSession) \<and>
   engine (snd (onMount failingEngineEnv ''model.glb'' boundSession)) = None \<and>
   onDestroy (snd (onMount failingEngineEnv ''model.glb'' boundSession)) =
     (None, snd (onMount failingEngineEnv ''model.glb'' boundSession)) \<and>
   handleResize (snd (onMount failingLoadEnv ''model.glb'' boundSession)) = None \<and>
   fst (onDestroy (snd (onMount failingLoadEnv ''model.glb'' boundSession))) = None \<and>
   map_option controlAttached
     (camera (snd (onDestroy (snd (onMount failingLoadEnv ''model.glb'' boundSession))))) =
     Some False \<and>
   map_option engineDisposed
     (engine (snd (onDestroy (snd (onMount failingLoadEnv ''model.glb'' boundSession))))) =
     Some True \<and>
   map_option sceneDisposed
     (scene (snd (onDestroy (snd (onMount failingLoadEnv ''model.glb'' boundSession))))) =
     Some True"
  using onDestroy_never_raises [of initialSession]
    onDestroy_never_raises [of "snd (onMount failingEngineEnv ''model.glb'' boundSession)"]
    onDestroy_never_raises [of "snd (onMount failingLoadEnv ''model.glb'' boundSession)"]
  by (simp add: onMount_def onMount_try_def loadModel_def action_defs setup_defs example_defs)

end
